theory Spec2Isabelle
  imports Main "HOL-Library.Word" "HOL-Library.Signed_Division"
begin

chapter \<open>VROOM: scaled units and JSON ingestion\<close>

text \<open>
  A shallow embedding of \<^verbatim>\<open>src/structures/typedefs.h\<close> (integer types, constants and the
  scaling helpers of namespace \<^verbatim>\<open>utils\<close>) and of \<^verbatim>\<open>src/utils/input_parser.cpp\<close>
  (the translation of a JSON document into calls on an \<^verbatim>\<open>Input\<close> object).
\<close>

section \<open>Errors\<close>

text \<open>
  \<^verbatim>\<open>InputException\<close> and \<^verbatim>\<open>std::runtime_error\<close> are the two exceptions the parser throws,
  each with its message. \<open>AssertionFailure\<close> stands for a failed \<^verbatim>\<open>assert\<close>: the ones
  written in \<^verbatim>\<open>typedefs.h\<close> and the preconditions of the rapidjson accessors (reading a
  member of a value that is not an object, a missing member, a number of the wrong kind).
\<close>

datatype error = InputException string | RuntimeError string | AssertionFailure

section \<open>Integer types and constants of typedefs.h\<close>

type_synonym Id = "64 word"
type_synonym Index = "16 word"
type_synonym UserCost = "32 word"
type_synonym Cost = "64 word"
type_synonym UserDuration = "32 word"
type_synonym Duration = "64 word"
type_synonym UserDistance = "32 word"
type_synonym Distance = "64 word"
type_synonym Capacity = "64 word"
type_synonym Skill = "32 word"
type_synonym Priority = "32 word"

text \<open>\<^verbatim>\<open>std::numeric_limits<T>::max()\<close> for the unsigned 32-bit and the signed 64-bit types.\<close>

definition UserCost_max :: UserCost where
  "UserCost_max = 4294967295"

definition UserDuration_max :: UserDuration where
  "UserDuration_max = 4294967295"

definition Cost_max :: Cost where
  "Cost_max = 9223372036854775807"

text \<open>Division of two \<^verbatim>\<open>int64_t\<close>: the quotient is truncated towards zero.\<close>

definition sdiv64 :: "64 word \<Rightarrow> 64 word \<Rightarrow> 64 word" where
  "sdiv64 a b = word_of_int (sint a sdiv sint b)"

definition INFINITE_USER_COST :: UserCost where
  "INFINITE_USER_COST = 3 * (UserCost_max div 4)"

definition DEFAULT_PROFILE :: string where
  "DEFAULT_PROFILE = ''car''"

definition DURATION_FACTOR :: Duration where
  "DURATION_FACTOR = 100"

definition COST_FACTOR :: Cost where
  "COST_FACTOR = 3600"

definition DEFAULT_COST_PER_HOUR :: UserCost where
  "DEFAULT_COST_PER_HOUR = 3600"

definition DEFAULT_COST_PER_KM :: UserCost where
  "DEFAULT_COST_PER_KM = 0"

subsection \<open>Scaling between user and internal units\<close>

text \<open>
  \<^verbatim>\<open>static_cast<Duration>(d)\<close> zero-extends the unsigned 32-bit value to 64 bits; the
  multiplication is that of \<^verbatim>\<open>int64_t\<close>. The way back first asserts its argument to be at
  most the image of the largest user value, then divides and narrows to 32 bits.
\<close>

definition scale_from_user_duration :: "UserDuration \<Rightarrow> Duration" where
  "scale_from_user_duration d = DURATION_FACTOR * ucast d"

definition scale_to_user_duration :: "Duration \<Rightarrow> error + UserDuration" where
  "scale_to_user_duration d =
     (if d \<le>s scale_from_user_duration UserDuration_max
      then Inr (ucast (sdiv64 d DURATION_FACTOR))
      else Inl AssertionFailure)"

definition scale_from_user_cost :: "UserCost \<Rightarrow> Cost" where
  "scale_from_user_cost c = DURATION_FACTOR * COST_FACTOR * ucast c"

definition scale_to_user_cost :: "Cost \<Rightarrow> error + UserCost" where
  "scale_to_user_cost c =
     (if c \<le>s scale_from_user_cost UserCost_max
      then Inr (ucast (sdiv64 c (DURATION_FACTOR * COST_FACTOR)))
      else Inl AssertionFailure)"

section \<open>JSON documents as rapidjson presents them\<close>

text \<open>
  A number is either an integer literal or a literal with a fraction or an exponent
  (\<open>Decimal m e\<close> stands for \<open>m \<sqdot> 10\<^sup>e\<close>). A \<^verbatim>\<open>double\<close> is kept as the number it was read
  from: the parser only stores doubles, it never computes with them. The members of
  an object are kept in document order, duplicates included.
\<close>

datatype number = Integer int | Decimal int int

datatype json =
    JNull
  | JBool bool
  | JNumber number
  | JString string
  | JArray "json list"
  | JObject "(string \<times> json) list"

text \<open>Sequencing of computations that may throw: the first exception wins.\<close>

definition and_then :: "error + 'a \<Rightarrow> ('a \<Rightarrow> error + 'b) \<Rightarrow> error + 'b" where
  "and_then m f = (case m of Inl e \<Rightarrow> Inl e | Inr x \<Rightarrow> f x)"

text \<open>\<^verbatim>\<open>std::transform\<close> with a function that may throw: elements are visited in order.\<close>

primrec map_result :: "('a \<Rightarrow> error + 'b) \<Rightarrow> 'a list \<Rightarrow> error + 'b list" where
  "map_result f [] = Inr []"
| "map_result f (x # xs) =
     and_then (f x) (\<lambda>y. and_then (map_result f xs) (\<lambda>ys. Inr (y # ys)))"

text \<open>
  \<open>uint_value v\<close> is \<open>Some u\<close> exactly when \<^verbatim>\<open>v.IsUint()\<close> holds, and then \<open>u\<close> is
  \<^verbatim>\<open>v.GetUint()\<close>; likewise \<open>uint64_value\<close> for \<^verbatim>\<open>IsUint64\<close> and \<^verbatim>\<open>GetUint64\<close>.
\<close>

fun uint_value :: "json \<Rightarrow> 32 word option" where
  "uint_value (JNumber (Integer i)) =
     (if 0 \<le> i \<and> i < 2 ^ 32 then Some (word_of_int i) else None)"
| "uint_value _ = None"

fun uint64_value :: "json \<Rightarrow> 64 word option" where
  "uint64_value (JNumber (Integer i)) =
     (if 0 \<le> i \<and> i < 2 ^ 64 then Some (word_of_int i) else None)"
| "uint64_value _ = None"

text \<open>
  \<^verbatim>\<open>FindMember\<close>: the first member of that name, if any. \<^verbatim>\<open>HasMember(key)\<close> is
  \<open>FindMember v key \<noteq> Inr None\<close>. Both assert that the value is an object.
\<close>

fun FindMember :: "json \<Rightarrow> string \<Rightarrow> error + json option" where
  "FindMember (JObject ms) key = Inr (map_of ms key)"
| "FindMember _ key = Inl AssertionFailure"

text \<open>\<^verbatim>\<open>v[key]\<close> without a preceding test: asserts that the member exists.\<close>

definition at_key :: "json \<Rightarrow> string \<Rightarrow> error + json" where
  "at_key v key =
     and_then (FindMember v key)
       (\<lambda>m. case m of None \<Rightarrow> Inl AssertionFailure | Some x \<Rightarrow> Inr x)"

definition GetUint64 :: "json \<Rightarrow> error + Id" where
  "GetUint64 v = (case uint64_value v of None \<Rightarrow> Inl AssertionFailure | Some i \<Rightarrow> Inr i)"

text \<open>\<^verbatim>\<open>v.GetArray()\<close>, \<^verbatim>\<open>v.Size()\<close> and \<^verbatim>\<open>v[i]\<close> assert that the value is an array.\<close>

definition GetArray :: "json \<Rightarrow> error + json list" where
  "GetArray v = (case v of JArray xs \<Rightarrow> Inr xs | _ \<Rightarrow> Inl AssertionFailure)"

text \<open>\<^verbatim>\<open>std::to_string\<close> of an unsigned integer: its decimal digits.\<close>

fun to_string :: "nat \<Rightarrow> string" where
  "to_string n =
     (if n < 10 then [''0123456789'' ! n]
      else to_string (n div 10) @ [''0123456789'' ! (n mod 10)])"

declare to_string.simps [simp del]

text \<open>\<^verbatim>\<open>std::to_string(v["id"].GetUint64())\<close>, as the error messages use it.\<close>

definition id_string :: "json \<Rightarrow> error + string" where
  "id_string v =
     and_then (at_key v ''id'') (\<lambda>i. and_then (GetUint64 i) (\<lambda>n. Inr (to_string (unat n))))"

section \<open>The structures the parser builds\<close>

text \<open>
  Modelled from the spec: the classes \<^verbatim>\<open>Location\<close>, \<^verbatim>\<open>TimeWindow\<close>, \<^verbatim>\<open>Break\<close>,
  \<^verbatim>\<open>VehicleCosts\<close>, \<^verbatim>\<open>ForcedService\<close>, \<^verbatim>\<open>VehicleStep\<close>, \<^verbatim>\<open>Vehicle\<close>, \<^verbatim>\<open>Job\<close>, \<^verbatim>\<open>Amount\<close>,
  \<^verbatim>\<open>Matrix\<close> and \<^verbatim>\<open>Input\<close> are declared in headers that are not among the sources
  (\<^verbatim>\<open>structures/vroom/*.h\<close>). Following section 3 of the specification, each is the
  data its constructor is given: a value records the constructor that was called and its
  arguments, in the order \<^verbatim>\<open>input_parser.cpp\<close> passes them.
\<close>

record Coordinates =
  lon :: number
  lat :: number

datatype Location =
    Location_index Index
  | Location_coords Coordinates
  | Location_index_coords Index Coordinates

type_synonym Amount = "Capacity list"
type_synonym Skills = "Skill set"
type_synonym UserDurationMap = "string \<rightharpoonup> UserDuration"
type_synonym Matrix = "32 word list list"

datatype JOB_TYPE = SINGLE | PICKUP | DELIVERY

datatype STEP_TYPE = START | JOB | BREAK | END

record TimeWindow =
  tw_start :: Duration
  tw_end :: Duration

record Break =
  break_id :: Id
  break_tws :: "TimeWindow list"
  break_service :: UserDuration
  break_description :: string
  break_max_load :: "Amount option"

record VehicleCosts =
  fixed :: UserCost
  per_hour :: UserCost
  per_km :: UserCost

record ForcedService =
  service_at :: "UserDuration option"
  service_after :: "UserDuration option"
  service_before :: "UserDuration option"

datatype VehicleStep =
    VehicleStep_type STEP_TYPE ForcedService
  | VehicleStep_job JOB_TYPE Id ForcedService
  | VehicleStep_id STEP_TYPE Id ForcedService

record Vehicle =
  vehicle_id :: Id
  vehicle_start :: "Location option"
  vehicle_end :: "Location option"
  vehicle_profile :: string
  vehicle_capacity :: Amount
  vehicle_skills :: Skills
  vehicle_tw :: TimeWindow
  vehicle_breaks :: "Break list"
  vehicle_description :: string
  vehicle_costs :: VehicleCosts
  vehicle_speed_factor :: number
  vehicle_service_type :: "string option"
  vehicle_max_tasks :: "64 word option"
  vehicle_max_travel_time :: "UserDuration option"
  vehicle_max_distance :: "UserDistance option"
  vehicle_steps :: "VehicleStep list"

text \<open>
  \<^verbatim>\<open>Job\<close> has two constructors: the one for a single job takes a delivery and a pickup
  amount, the one for the two halves of a shipment takes the job type and one amount.
\<close>

datatype Job =
    Job (job_id: Id) (job_location: Location)
      (job_setup: UserDuration) (job_service: UserDuration)
      (job_service_per_vehicle_type: UserDurationMap)
      (job_delivery: Amount) (job_pickup: Amount)
      (job_skills: Skills) (job_priority: Priority)
      (job_tws: "TimeWindow list") (job_description: string)
  | Job_typed (job_id: Id) (job_type: JOB_TYPE) (job_location: Location)
      (job_setup: UserDuration) (job_service: UserDuration)
      (job_service_per_vehicle_type: UserDurationMap)
      (job_amount: Amount)
      (job_skills: Skills) (job_priority: Priority)
      (job_tws: "TimeWindow list") (job_description: string)

record Input =
  input_amount_size :: nat
  input_geometry :: bool
  input_vehicles :: "Vehicle list"
  input_jobs :: "Job list"
  input_shipments :: "(Job \<times> Job) list"
  durations_matrices :: "string \<rightharpoonup> Matrix"
  distances_matrices :: "string \<rightharpoonup> Matrix"
  costs_matrices :: "string \<rightharpoonup> Matrix"

text \<open>
  Modelled from the spec: the methods of \<^verbatim>\<open>Input\<close> that \<open>parse\<close> calls
  (\<^verbatim>\<open>structures/vroom/input/input.h\<close> is not among the sources). Each stores what it is
  given: the setters overwrite, \<^verbatim>\<open>add_vehicle\<close>, \<^verbatim>\<open>add_job\<close> and \<^verbatim>\<open>add_shipment\<close> append, and
  a matrix is stored under its profile. Checks that these methods and the constructors
  above make on their arguments (such as the range of a priority) are not part of the
  model, which can therefore succeed where the program throws.
\<close>

definition set_amount_size :: "nat \<Rightarrow> Input \<Rightarrow> Input" where
  "set_amount_size n input = input\<lparr>input_amount_size := n\<rparr>"

definition set_geometry :: "bool \<Rightarrow> Input \<Rightarrow> Input" where
  "set_geometry g input = input\<lparr>input_geometry := g\<rparr>"

definition add_vehicle :: "Vehicle \<Rightarrow> Input \<Rightarrow> Input" where
  "add_vehicle v input = input\<lparr>input_vehicles := input_vehicles input @ [v]\<rparr>"

definition add_job :: "Job \<Rightarrow> Input \<Rightarrow> Input" where
  "add_job j input = input\<lparr>input_jobs := input_jobs input @ [j]\<rparr>"

definition add_shipment :: "Job \<Rightarrow> Job \<Rightarrow> Input \<Rightarrow> Input" where
  "add_shipment p d input = input\<lparr>input_shipments := input_shipments input @ [(p, d)]\<rparr>"

definition set_durations_matrix :: "string \<Rightarrow> Matrix \<Rightarrow> Input \<Rightarrow> Input" where
  "set_durations_matrix profile m input =
     input\<lparr>durations_matrices := (durations_matrices input)(profile \<mapsto> m)\<rparr>"

definition set_distances_matrix :: "string \<Rightarrow> Matrix \<Rightarrow> Input \<Rightarrow> Input" where
  "set_distances_matrix profile m input =
     input\<lparr>distances_matrices := (distances_matrices input)(profile \<mapsto> m)\<rparr>"

definition set_costs_matrix :: "string \<Rightarrow> Matrix \<Rightarrow> Input \<Rightarrow> Input" where
  "set_costs_matrix profile m input =
     input\<lparr>costs_matrices := (costs_matrices input)(profile \<mapsto> m)\<rparr>"

text \<open>
  Modelled from the spec: the constructor \<^verbatim>\<open>TimeWindow(start, end)\<close>
  (\<^verbatim>\<open>structures/vroom/time_window.h\<close> is not among the sources). By section 7 of the
  specification a malformed time window (start > end) is an input error raised during
  ingestion; by section 3 durations are stored in hundredths of a second.
\<close>

definition TimeWindow_ctor :: "UserDuration \<Rightarrow> UserDuration \<Rightarrow> error + TimeWindow" where
  "TimeWindow_ctor start end =
     (if end < start then Inl (InputException ''Invalid time window.'')
      else Inr \<lparr>tw_start = scale_from_user_duration start,
                tw_end = scale_from_user_duration end\<rparr>)"

text \<open>
  Modelled from the spec: the order \<^verbatim>\<open>std::sort\<close> uses on time windows (section 3 asks for
  sorted lists of time windows). It is the order that \<^verbatim>\<open>get_vehicle_breaks\<close> spells out
  for the first windows of two breaks: by start, then by end.
\<close>

definition tw_less :: "TimeWindow \<Rightarrow> TimeWindow \<Rightarrow> bool" where
  "tw_less a b \<longleftrightarrow>
     tw_start a <s tw_start b \<or> (tw_start a = tw_start b \<and> tw_end a <s tw_end b)"

text \<open>
  Sorting as insertion sort. Elements that the order does not tell apart keep their
  relative position (\<^verbatim>\<open>std::sort\<close> does not promise that).
\<close>

primrec insert_sorted :: "('a \<Rightarrow> 'a \<Rightarrow> bool) \<Rightarrow> 'a \<Rightarrow> 'a list \<Rightarrow> 'a list" where
  "insert_sorted lt x [] = [x]"
| "insert_sorted lt x (y # ys) =
     (if lt y x then y # insert_sorted lt x ys else x # y # ys)"

definition sort_by :: "('a \<Rightarrow> 'a \<Rightarrow> bool) \<Rightarrow> 'a list \<Rightarrow> 'a list" where
  "sort_by lt xs = foldr (insert_sorted lt) xs []"

text \<open>
  What the parser takes from code that is not among the sources and that the
  specification does not describe: the value of the default constructor \<^verbatim>\<open>TimeWindow()\<close>
  and the validation \<^verbatim>\<open>utils::check_tws\<close> (\<^verbatim>\<open>utils/helpers.h\<close>). Both are parameters of the
  model.
\<close>

record externals =
  TimeWindow_default :: TimeWindow
  check_tws :: "TimeWindow list \<Rightarrow> Id \<Rightarrow> string \<Rightarrow> error + unit"

section \<open>The helpers of input_parser.cpp\<close>

text \<open>
  Each function of \<^verbatim>\<open>input_parser.cpp\<close> becomes a function of the same name that returns
  either the exception thrown or the value returned. A test \<^verbatim>\<open>object.HasMember(key)\<close>
  followed by reads of \<^verbatim>\<open>object[key]\<close> is one \<open>FindMember\<close>.

  Where C++ leaves the order in which the arguments of a constructor call are evaluated
  open (\<^verbatim>\<open>Job\<close>, \<^verbatim>\<open>Vehicle\<close>, \<^verbatim>\<open>Break\<close>), the model evaluates them in the order they are
  written. When several of them throw, which exception is reported therefore depends on
  the compiler; whether the call throws at all does not. The properties proved below are
  about a single reader, about runs that succeed, about runs in which at most one
  argument of a call throws, or about the equality of two runs of \<open>parse\<close>, and hold
  for every order.

  A string is kept whole, where the source cuts it at the first NUL character
  (\<^verbatim>\<open>GetString()\<close> assigned to a \<^verbatim>\<open>std::string\<close>).
\<close>

definition parse_coordinates :: "json \<Rightarrow> string \<Rightarrow> error + Coordinates" where
  "parse_coordinates object key =
     and_then (at_key object key)
       (\<lambda>v. case v of
            JArray (JNumber x # JNumber y # _) \<Rightarrow> Inr \<lparr>lon = x, lat = y\<rparr>
          | _ \<Rightarrow> Inl (InputException (''Invalid '' @ key @ '' array.'')))"

definition get_string :: "json \<Rightarrow> string \<Rightarrow> error + string" where
  "get_string object key =
     and_then (FindMember object key)
       (\<lambda>m. case m of
            None \<Rightarrow> Inr ''''
          | Some (JString s) \<Rightarrow> Inr s
          | Some _ \<Rightarrow> Inl (InputException (''Invalid '' @ key @ '' value.'')))"

definition get_optional_string :: "json \<Rightarrow> string \<Rightarrow> error + string option" where
  "get_optional_string object key =
     and_then (FindMember object key)
       (\<lambda>m. case m of
            None \<Rightarrow> Inr None
          | Some (JString s) \<Rightarrow> Inr (Some s)
          | Some _ \<Rightarrow> Inl (InputException (''Invalid '' @ key @ '' value.'')))"

definition get_double :: "json \<Rightarrow> string \<Rightarrow> error + number" where
  "get_double object key =
     and_then (FindMember object key)
       (\<lambda>m. case m of
            None \<Rightarrow> Inr (Integer 1)
          | Some (JNumber x) \<Rightarrow> Inr x
          | Some _ \<Rightarrow> Inl (InputException (''Invalid '' @ key @ '' value.'')))"

text \<open>The loop of \<open>get_amount\<close> over the entries of the array.\<close>

primrec amount_values :: "string \<Rightarrow> json list \<Rightarrow> error + Amount" where
  "amount_values key [] = Inr []"
| "amount_values key (x # xs) =
     (case uint_value x of
        None \<Rightarrow> Inl (InputException (''Invalid '' @ key @ '' value.''))
      | Some u \<Rightarrow> and_then (amount_values key xs) (\<lambda>rest. Inr (ucast u # rest)))"

definition get_amount :: "json \<Rightarrow> string \<Rightarrow> nat \<Rightarrow> error + Amount" where
  "get_amount object key amount_size =
     and_then (FindMember object key)
       (\<lambda>m. case m of
            None \<Rightarrow> Inr (replicate amount_size 0)
          | Some (JArray xs) \<Rightarrow>
              if length xs \<noteq> amount_size
              then Inl (InputException
                     (''Inconsistent '' @ key @ '' length: '' @ to_string (length xs)
                      @ '' and '' @ to_string amount_size @ ''.''))
              else amount_values key xs
          | Some _ \<Rightarrow> Inl (InputException (''Invalid '' @ key @ '' array.'')))"

primrec insert_skills :: "json list \<Rightarrow> Skills \<Rightarrow> error + Skills" where
  "insert_skills [] skills = Inr skills"
| "insert_skills (x # xs) skills =
     (case uint_value x of
        None \<Rightarrow> Inl (InputException ''Invalid skill value.'')
      | Some s \<Rightarrow> insert_skills xs (insert s skills))"

definition get_skills :: "json \<Rightarrow> error + Skills" where
  "get_skills object =
     and_then (FindMember object ''skills'')
       (\<lambda>m. case m of
            None \<Rightarrow> Inr {}
          | Some (JArray xs) \<Rightarrow> insert_skills xs {}
          | Some _ \<Rightarrow> Inl (InputException ''Invalid skills object.''))"

definition get_duration :: "json \<Rightarrow> string \<Rightarrow> error + UserDuration" where
  "get_duration object key =
     and_then (FindMember object key)
       (\<lambda>m. case m of
            None \<Rightarrow> Inr 0
          | Some v \<Rightarrow>
              (case uint_value v of
                 None \<Rightarrow> Inl (InputException (''Invalid '' @ key @ '' duration.''))
               | Some d \<Rightarrow> Inr d))"

text \<open>
  The loop of \<open>get_duration_map\<close> over the members of the object. A member name is always
  a string, so the second test of the loop body cannot fail.
\<close>

primrec duration_members ::
  "string \<Rightarrow> (string \<times> json) list \<Rightarrow> UserDurationMap \<Rightarrow> error + UserDurationMap" where
  "duration_members key [] durations = Inr durations"
| "duration_members key (member # members) durations =
     (case uint_value (snd member) of
        None \<Rightarrow> Inl (RuntimeError (''Invalid '' @ key @ '' duration.''))
      | Some d \<Rightarrow> duration_members key members (durations(fst member \<mapsto> d)))"

definition get_duration_map :: "json \<Rightarrow> string \<Rightarrow> error + UserDurationMap" where
  "get_duration_map object key =
     and_then (FindMember object key)
       (\<lambda>m. case m of
            None \<Rightarrow> Inr Map.empty
          | Some (JObject members) \<Rightarrow> duration_members key members Map.empty
          | Some _ \<Rightarrow> Inl (RuntimeError (''Invalid '' @ key @ '' duration.'')))"

definition get_priority :: "json \<Rightarrow> error + Priority" where
  "get_priority object =
     and_then (FindMember object ''priority'')
       (\<lambda>m. case m of
            None \<Rightarrow> Inr 0
          | Some v \<Rightarrow>
              (case uint_value v of
                 None \<Rightarrow> Inl (InputException ''Invalid priority value.'')
               | Some p \<Rightarrow> Inr p))"

text \<open>
  \<open>get_value_for\<close> is a template: the unsigned 32-bit value read is converted to the
  result type \<^verbatim>\<open>T\<close>, which the model takes as the width of the result word.
\<close>

definition get_value_for :: "json \<Rightarrow> string \<Rightarrow> error + 'a::len word option" where
  "get_value_for object key =
     and_then (FindMember object key)
       (\<lambda>m. case m of
            None \<Rightarrow> Inr None
          | Some v \<Rightarrow>
              (case uint_value v of
                 None \<Rightarrow> Inl (InputException (''Invalid '' @ key @ '' value.''))
               | Some x \<Rightarrow> Inr (Some (ucast x))))"

definition check_id :: "json \<Rightarrow> string \<Rightarrow> error + unit" where
  "check_id v type =
     (case v of
        JObject members \<Rightarrow>
          (case Option.bind (map_of members ''id'') uint64_value of
             None \<Rightarrow> Inl (InputException (''Invalid or missing id for '' @ type @ ''.''))
           | Some _ \<Rightarrow> Inr ())
      | _ \<Rightarrow> Inl (InputException (''Invalid '' @ type @ ''.'')))"

definition check_shipment :: "json \<Rightarrow> error + unit" where
  "check_shipment v =
     (case v of
        JObject members \<Rightarrow>
          (case map_of members ''pickup'' of
             Some (JObject _) \<Rightarrow>
               (case map_of members ''delivery'' of
                  Some (JObject _) \<Rightarrow> Inr ()
                | _ \<Rightarrow> Inl (InputException ''Missing delivery for shipment.''))
           | _ \<Rightarrow> Inl (InputException ''Missing pickup for shipment.''))
      | _ \<Rightarrow> Inl (InputException ''Invalid shipment.''))"

definition check_location :: "json \<Rightarrow> string \<Rightarrow> error + unit" where
  "check_location v type =
     and_then (FindMember v ''location'')
       (\<lambda>m. case m of
            Some (JArray _) \<Rightarrow> Inr ()
          | _ \<Rightarrow>
              and_then (id_string v)
                (\<lambda>i. Inl (InputException
                        (''Invalid location for '' @ type @ '' '' @ i @ ''.''))))"

definition get_time_window :: "json \<Rightarrow> error + TimeWindow" where
  "get_time_window tw =
     (case tw of
        JArray (a # b # _) \<Rightarrow>
          (case uint_value a of
             None \<Rightarrow> Inl (InputException ''Invalid time-window.'')
           | Some start \<Rightarrow>
               (case uint_value b of
                  None \<Rightarrow> Inl (InputException ''Invalid time-window.'')
                | Some end \<Rightarrow> TimeWindow_ctor start end))
      | _ \<Rightarrow> Inl (InputException ''Invalid time-window.''))"

definition get_vehicle_time_window :: "externals \<Rightarrow> json \<Rightarrow> error + TimeWindow" where
  "get_vehicle_time_window ext v =
     and_then (FindMember v ''time_window'')
       (\<lambda>m. case m of
            None \<Rightarrow> Inr (TimeWindow_default ext)
          | Some tw \<Rightarrow> get_time_window tw)"

definition get_time_windows :: "externals \<Rightarrow> json \<Rightarrow> error + TimeWindow list" where
  "get_time_windows ext obj =
     and_then (FindMember obj ''time_windows'')
       (\<lambda>m. case m of
            None \<Rightarrow> Inr [TimeWindow_default ext]
          | Some (JArray (tw # tws)) \<Rightarrow>
              and_then (map_result get_time_window (tw # tws))
                (\<lambda>tws. Inr (sort_by tw_less tws))
          | Some _ \<Rightarrow>
              and_then (id_string obj)
                (\<lambda>i. Inl (InputException
                        (''Invalid time_windows array for object '' @ i @ ''.''))))"

definition get_break :: "externals \<Rightarrow> json \<Rightarrow> nat \<Rightarrow> error + Break" where
  "get_break ext b amount_size =
     and_then (check_id b ''break'') (\<lambda>_.
     and_then (FindMember b ''max_load'') (\<lambda>m.
     and_then (case m of
                 None \<Rightarrow> Inr None
               | Some _ \<Rightarrow> and_then (get_amount b ''max_load'' amount_size) (\<lambda>a. Inr (Some a)))
       (\<lambda>max_load.
     and_then (at_key b ''id'') (\<lambda>i.
     and_then (GetUint64 i) (\<lambda>b_id.
     and_then (get_time_windows ext b) (\<lambda>tws.
     and_then (get_duration b ''service'') (\<lambda>service.
     and_then (get_string b ''description'') (\<lambda>description.
     Inr \<lparr>break_id = b_id, break_tws = tws, break_service = service,
          break_description = description, break_max_load = max_load\<rparr>))))))))"

text \<open>
  The comparison \<open>get_vehicle_breaks\<close> sorts with. It reads the first time window of each
  break; \<open>get_time_windows\<close> never returns an empty list.
\<close>

definition break_less :: "Break \<Rightarrow> Break \<Rightarrow> bool" where
  "break_less a b \<longleftrightarrow>
     tw_start (hd (break_tws a)) <s tw_start (hd (break_tws b))
     \<or> (tw_start (hd (break_tws a)) = tw_start (hd (break_tws b))
        \<and> tw_end (hd (break_tws a)) <s tw_end (hd (break_tws b)))"

definition get_vehicle_breaks :: "externals \<Rightarrow> json \<Rightarrow> nat \<Rightarrow> error + Break list" where
  "get_vehicle_breaks ext v amount_size =
     and_then (FindMember v ''breaks'')
       (\<lambda>m. and_then
          (case m of
             None \<Rightarrow> Inr []
           | Some (JArray bs) \<Rightarrow> map_result (\<lambda>b. get_break ext b amount_size) bs
           | Some _ \<Rightarrow>
               and_then (id_string v)
                 (\<lambda>i. Inl (InputException (''Invalid breaks for vehicle '' @ i @ ''.''))))
          (\<lambda>breaks. Inr (sort_by break_less breaks)))"

text \<open>One of the three cost entries: absent, or an unsigned integer.\<close>

definition get_cost_entry :: "json \<Rightarrow> json \<Rightarrow> string \<Rightarrow> UserCost \<Rightarrow> error + UserCost" where
  "get_cost_entry v costs key dflt =
     and_then (FindMember costs key)
       (\<lambda>m. case m of
            None \<Rightarrow> Inr dflt
          | Some c \<Rightarrow>
              (case uint_value c of
                 None \<Rightarrow>
                   and_then (id_string v)
                     (\<lambda>i. Inl (InputException
                             (''Invalid '' @ key @ '' cost for vehicle '' @ i @ ''.'')))
               | Some x \<Rightarrow> Inr x))"

definition get_vehicle_costs :: "json \<Rightarrow> error + VehicleCosts" where
  "get_vehicle_costs v =
     and_then (FindMember v ''costs'')
       (\<lambda>m. case m of
            None \<Rightarrow>
              Inr \<lparr>fixed = 0, per_hour = DEFAULT_COST_PER_HOUR, per_km = DEFAULT_COST_PER_KM\<rparr>
          | Some (JObject members) \<Rightarrow>
              and_then (get_cost_entry v (JObject members) ''fixed'' 0) (\<lambda>fixed.
              and_then (get_cost_entry v (JObject members) ''per_hour'' DEFAULT_COST_PER_HOUR)
                (\<lambda>per_hour.
              and_then (get_cost_entry v (JObject members) ''per_km'' DEFAULT_COST_PER_KM)
                (\<lambda>per_km.
              Inr \<lparr>fixed = fixed, per_hour = per_hour, per_km = per_km\<rparr>)))
          | Some _ \<Rightarrow>
              and_then (id_string v)
                (\<lambda>i. Inl (InputException (''Invalid costs for vehicle '' @ i @ ''.''))))"

text \<open>One of \<^verbatim>\<open>service_at\<close>, \<^verbatim>\<open>service_after\<close>, \<^verbatim>\<open>service_before\<close> of a step.\<close>

definition get_forced :: "json \<Rightarrow> string \<Rightarrow> error + UserDuration option" where
  "get_forced json_step key =
     and_then (FindMember json_step key)
       (\<lambda>m. case m of
            None \<Rightarrow> Inr None
          | Some v \<Rightarrow>
              (case uint_value v of
                 None \<Rightarrow> Inl (InputException (''Invalid '' @ key @ '' value.''))
               | Some x \<Rightarrow> Inr (Some x)))"

text \<open>The body of the loop of \<open>get_vehicle_steps\<close>.\<close>

definition get_vehicle_step :: "json \<Rightarrow> json \<Rightarrow> error + VehicleStep" where
  "get_vehicle_step v json_step =
     and_then (get_forced json_step ''service_at'') (\<lambda>at.
     and_then (get_forced json_step ''service_after'') (\<lambda>after.
     and_then (get_forced json_step ''service_before'') (\<lambda>before.
     and_then (get_string json_step ''type'') (\<lambda>type_str.
       let forced_service =
             \<lparr>service_at = at, service_after = after, service_before = before\<rparr>
       in
       if type_str = ''start'' then Inr (VehicleStep_type START forced_service)
       else if type_str = ''end'' then Inr (VehicleStep_type END forced_service)
       else
         and_then (FindMember json_step ''id'')
           (\<lambda>m. case Option.bind m uint64_value of
                None \<Rightarrow>
                  and_then (id_string v)
                    (\<lambda>i. Inl (InputException
                            (''Invalid id in steps for vehicle '' @ i @ ''.'')))
              | Some step_id \<Rightarrow>
                  if type_str = ''job''
                    then Inr (VehicleStep_job SINGLE step_id forced_service)
                  else if type_str = ''pickup''
                    then Inr (VehicleStep_job PICKUP step_id forced_service)
                  else if type_str = ''delivery''
                    then Inr (VehicleStep_job DELIVERY step_id forced_service)
                  else if type_str = ''break''
                    then Inr (VehicleStep_id BREAK step_id forced_service)
                  else
                    and_then (id_string v)
                      (\<lambda>i. Inl (InputException
                              (''Invalid type in steps for vehicle '' @ i @ ''.''))))))))"

definition get_vehicle_steps :: "json \<Rightarrow> error + VehicleStep list" where
  "get_vehicle_steps v =
     and_then (FindMember v ''steps'')
       (\<lambda>m. case m of
            None \<Rightarrow> Inr []
          | Some (JArray steps) \<Rightarrow> map_result (get_vehicle_step v) steps
          | Some _ \<Rightarrow>
              and_then (id_string v)
                (\<lambda>i. Inl (InputException (''Invalid steps for vehicle '' @ i @ ''.''))))"

text \<open>
  The optional start and the optional end of a vehicle are built by the same code, up to
  the keys and the message. The index read is narrowed from 32 to 16 bits.
\<close>

definition get_vehicle_endpoint ::
  "json \<Rightarrow> string \<Rightarrow> string \<Rightarrow> string \<Rightarrow> error + Location option" where
  "get_vehicle_endpoint json_vehicle coords_key index_key message =
     and_then (FindMember json_vehicle coords_key) (\<lambda>coords.
     and_then (FindMember json_vehicle index_key) (\<lambda>index.
       case index of
         Some i \<Rightarrow>
           (case uint_value i of
              None \<Rightarrow> Inl (InputException message)
            | Some n \<Rightarrow>
                (case coords of
                   Some _ \<Rightarrow>
                     and_then (parse_coordinates json_vehicle coords_key)
                       (\<lambda>c. Inr (Some (Location_index_coords (ucast n) c)))
                 | None \<Rightarrow> Inr (Some (Location_index (ucast n)))))
       | None \<Rightarrow>
           (case coords of
              Some _ \<Rightarrow>
                and_then (parse_coordinates json_vehicle coords_key)
                  (\<lambda>c. Inr (Some (Location_coords c)))
            | None \<Rightarrow> Inr None)))"

text \<open>
  \<open>get_vehicle\<close>. Its time window has a default value in the source, which \<open>parse\<close> never
  relies on: both calls pass the window.
\<close>

definition get_vehicle :: "externals \<Rightarrow> json \<Rightarrow> nat \<Rightarrow> TimeWindow \<Rightarrow> error + Vehicle" where
  "get_vehicle ext json_vehicle amount_size tw =
     and_then (check_id json_vehicle ''vehicle'') (\<lambda>_.
     and_then (at_key json_vehicle ''id'') (\<lambda>i.
     and_then (GetUint64 i) (\<lambda>v_id.
     and_then (get_vehicle_endpoint json_vehicle ''start'' ''start_index''
                 (''Invalid start_index for vehicle '' @ to_string (unat v_id) @ ''.''))
       (\<lambda>start.
     and_then (get_vehicle_endpoint json_vehicle ''end'' ''end_index''
                 (''Invalid end_index for vehicle'' @ to_string (unat v_id) @ ''.''))
       (\<lambda>end.
     and_then (get_string json_vehicle ''profile'') (\<lambda>profile.
     and_then (get_amount json_vehicle ''capacity'' amount_size) (\<lambda>capacity.
     and_then (get_skills json_vehicle) (\<lambda>skills.
     and_then (get_vehicle_breaks ext json_vehicle amount_size) (\<lambda>breaks.
     and_then (get_string json_vehicle ''description'') (\<lambda>description.
     and_then (get_vehicle_costs json_vehicle) (\<lambda>costs.
     and_then (get_double json_vehicle ''speed_factor'') (\<lambda>speed_factor.
     and_then (get_optional_string json_vehicle ''service_type'') (\<lambda>service_type.
     and_then (get_value_for json_vehicle ''max_tasks'') (\<lambda>max_tasks.
     and_then (get_value_for json_vehicle ''max_travel_time'') (\<lambda>max_travel_time.
     and_then (get_value_for json_vehicle ''max_distance'') (\<lambda>max_distance.
     and_then (get_vehicle_steps json_vehicle) (\<lambda>steps.
     Inr \<lparr>vehicle_id = v_id,
          vehicle_start = start,
          vehicle_end = end,
          vehicle_profile = (if profile = '''' then DEFAULT_PROFILE else profile),
          vehicle_capacity = capacity,
          vehicle_skills = skills,
          vehicle_tw = tw,
          vehicle_breaks = breaks,
          vehicle_description = description,
          vehicle_costs = costs,
          vehicle_speed_factor = speed_factor,
          vehicle_service_type = service_type,
          vehicle_max_tasks = max_tasks,
          vehicle_max_travel_time = max_travel_time,
          vehicle_max_distance = max_distance,
          vehicle_steps = steps\<rparr>)))))))))))))))))"

definition get_task_location :: "json \<Rightarrow> string \<Rightarrow> error + Location" where
  "get_task_location v type =
     and_then (FindMember v ''location'') (\<lambda>coords.
     and_then (FindMember v ''location_index'') (\<lambda>index.
       case index of
         Some i \<Rightarrow>
           (case uint_value i of
              None \<Rightarrow>
                and_then (id_string v)
                  (\<lambda>s. Inl (InputException
                          (''Invalid location_index for '' @ type @ '' '' @ s @ ''.'')))
            | Some location_index \<Rightarrow>
                (case coords of
                   Some _ \<Rightarrow>
                     and_then (parse_coordinates v ''location'')
                       (\<lambda>c. Inr (Location_index_coords (ucast location_index) c))
                 | None \<Rightarrow> Inr (Location_index (ucast location_index))))
       | None \<Rightarrow>
           and_then (check_location v type) (\<lambda>_.
           and_then (parse_coordinates v ''location'') (\<lambda>c. Inr (Location_coords c)))))"

text \<open>
  Only for retro-compatibility: when no pickup and delivery keys are defined and the
  (deprecated) amount key is present, it should be interpreted as a delivery.
\<close>

definition need_amount_compat :: "json \<Rightarrow> error + bool" where
  "need_amount_compat json_job =
     and_then (FindMember json_job ''amount'') (\<lambda>amount.
       if amount = None then Inr False
       else
         and_then (FindMember json_job ''delivery'') (\<lambda>delivery.
           if delivery \<noteq> None then Inr False
           else and_then (FindMember json_job ''pickup'') (\<lambda>pickup. Inr (pickup = None))))"

definition get_job :: "externals \<Rightarrow> json \<Rightarrow> nat \<Rightarrow> error + Job" where
  "get_job ext json_job amount_size =
     and_then (check_id json_job ''job'') (\<lambda>_.
     and_then (need_amount_compat json_job) (\<lambda>compat.
     and_then (at_key json_job ''id'') (\<lambda>i.
     and_then (GetUint64 i) (\<lambda>j_id.
     and_then (get_task_location json_job ''job'') (\<lambda>location.
     and_then (get_duration json_job ''setup'') (\<lambda>setup.
     and_then (get_duration json_job ''service'') (\<lambda>service.
     and_then (get_duration_map json_job ''service_per_vehicle_type'') (\<lambda>per_type.
     and_then (if compat then get_amount json_job ''amount'' amount_size
               else get_amount json_job ''delivery'' amount_size) (\<lambda>delivery.
     and_then (get_amount json_job ''pickup'' amount_size) (\<lambda>pickup.
     and_then (get_skills json_job) (\<lambda>skills.
     and_then (get_priority json_job) (\<lambda>priority.
     and_then (get_time_windows ext json_job) (\<lambda>tws.
     and_then (get_string json_job ''description'') (\<lambda>description.
     Inr (Job j_id location setup service per_type delivery pickup skills priority tws
            description)))))))))))))))"

text \<open>The loop of \<open>get_matrix\<close> over the entries of one line.\<close>

primrec matrix_entries :: "json list \<Rightarrow> error + 32 word list" where
  "matrix_entries [] = Inr []"
| "matrix_entries (x # xs) =
     (case uint_value x of
        None \<Rightarrow> Inl (InputException ''Invalid matrix entry.'')
      | Some u \<Rightarrow> and_then (matrix_entries xs) (\<lambda>rest. Inr (u # rest)))"

definition matrix_line :: "nat \<Rightarrow> json \<Rightarrow> error + 32 word list" where
  "matrix_line matrix_size line =
     (case line of
        JArray xs \<Rightarrow>
          if length xs \<noteq> matrix_size
          then Inl (InputException ''Unexpected matrix line length.'')
          else matrix_entries xs
      | _ \<Rightarrow> Inl (InputException ''Unexpected matrix line length.''))"

definition get_matrix :: "json \<Rightarrow> error + Matrix" where
  "get_matrix m =
     (case m of
        JArray lines \<Rightarrow> map_result (matrix_line (length lines)) lines
      | _ \<Rightarrow> Inl (InputException ''Invalid matrix.''))"

section \<open>parse\<close>

text \<open>
  The inner loop over the sorted time windows of a vehicle: one \<open>get_vehicle\<close> and one
  \<open>add_vehicle\<close> per window.
\<close>

primrec add_vehicle_per_window ::
  "externals \<Rightarrow> json \<Rightarrow> nat \<Rightarrow> TimeWindow list \<Rightarrow> Input \<Rightarrow> error + Input" where
  "add_vehicle_per_window ext json_vehicle amount_size [] input = Inr input"
| "add_vehicle_per_window ext json_vehicle amount_size (tw # tws) input =
     and_then (get_vehicle ext json_vehicle amount_size tw)
       (\<lambda>vehicle.
          add_vehicle_per_window ext json_vehicle amount_size tws (add_vehicle vehicle input))"

text \<open>The body of the loop that adds all vehicles.\<close>

definition add_json_vehicle :: "externals \<Rightarrow> nat \<Rightarrow> json \<Rightarrow> Input \<Rightarrow> error + Input" where
  "add_json_vehicle ext amount_size json_vehicle input =
     and_then (FindMember json_vehicle ''time_windows'')
       (\<lambda>m. case m of
            None \<Rightarrow>
              and_then (get_vehicle_time_window ext json_vehicle) (\<lambda>tw.
              and_then (get_vehicle ext json_vehicle amount_size tw) (\<lambda>vehicle.
              Inr (add_vehicle vehicle input)))
          | Some _ \<Rightarrow>
              and_then (get_time_windows ext json_vehicle) (\<lambda>timeWindows.
              and_then (check_id json_vehicle ''vehicle'') (\<lambda>_.
              and_then (at_key json_vehicle ''id'') (\<lambda>i.
              and_then (GetUint64 i) (\<lambda>v_id.
              and_then (check_tws ext timeWindows v_id ''vehicle'') (\<lambda>_.
              add_vehicle_per_window ext json_vehicle amount_size timeWindows input))))))"

text \<open>A loop whose body updates the input and may throw.\<close>

primrec for_each :: "('a \<Rightarrow> Input \<Rightarrow> error + Input) \<Rightarrow> 'a list \<Rightarrow> Input \<Rightarrow> error + Input" where
  "for_each body [] input = Inr input"
| "for_each body (x # xs) input = and_then (body x input) (for_each body xs)"

text \<open>The body of the loop that adds the jobs.\<close>

definition add_json_job :: "externals \<Rightarrow> nat \<Rightarrow> json \<Rightarrow> Input \<Rightarrow> error + Input" where
  "add_json_job ext amount_size json_job input =
     and_then (get_job ext json_job amount_size) (\<lambda>job. Inr (add_job job input))"

text \<open>
  The body of the loop that adds the shipments, up to the call of \<open>add_shipment\<close>: the
  pickup and the delivery job built from one shipment object.
\<close>

definition get_shipment_task ::
  "externals \<Rightarrow> json \<Rightarrow> string \<Rightarrow> JOB_TYPE \<Rightarrow> Amount \<Rightarrow> Skills \<Rightarrow> Priority \<Rightarrow> error + Job" where
  "get_shipment_task ext json_task type kind amount skills priority =
     and_then (check_id json_task type) (\<lambda>_.
     and_then (at_key json_task ''id'') (\<lambda>i.
     and_then (GetUint64 i) (\<lambda>t_id.
     and_then (get_task_location json_task type) (\<lambda>location.
     and_then (get_duration json_task ''setup'') (\<lambda>setup.
     and_then (get_duration json_task ''service'') (\<lambda>service.
     and_then (get_duration_map json_task ''service_per_vehicle_type'') (\<lambda>per_type.
     and_then (get_time_windows ext json_task) (\<lambda>tws.
     and_then (get_string json_task ''description'') (\<lambda>description.
     Inr (Job_typed t_id kind location setup service per_type amount skills priority tws
            description))))))))))"

definition get_shipment :: "externals \<Rightarrow> json \<Rightarrow> nat \<Rightarrow> error + Job \<times> Job" where
  "get_shipment ext json_shipment amount_size =
     and_then (check_shipment json_shipment) (\<lambda>_.
     and_then (get_amount json_shipment ''amount'' amount_size) (\<lambda>amount.
     and_then (get_skills json_shipment) (\<lambda>skills.
     and_then (get_priority json_shipment) (\<lambda>priority.
     and_then (at_key json_shipment ''pickup'') (\<lambda>json_pickup.
     and_then (get_shipment_task ext json_pickup ''pickup'' PICKUP amount skills priority)
       (\<lambda>pickup.
     and_then (at_key json_shipment ''delivery'') (\<lambda>json_delivery.
     and_then (get_shipment_task ext json_delivery ''delivery'' DELIVERY amount skills priority)
       (\<lambda>delivery.
     Inr (pickup, delivery)))))))))"

definition add_json_shipment :: "externals \<Rightarrow> nat \<Rightarrow> json \<Rightarrow> Input \<Rightarrow> error + Input" where
  "add_json_shipment ext amount_size json_shipment input =
     and_then (get_shipment ext json_shipment amount_size)
       (\<lambda>pd. Inr (add_shipment (fst pd) (snd pd) input))"

text \<open>One of the three matrices of a profile: set when the key is present.\<close>

definition set_matrix_if_present ::
  "json \<Rightarrow> string \<Rightarrow> (Matrix \<Rightarrow> Input \<Rightarrow> Input) \<Rightarrow> Input \<Rightarrow> error + Input" where
  "set_matrix_if_present value key set_matrix input =
     and_then (FindMember value key)
       (\<lambda>m. case m of
            None \<Rightarrow> Inr input
          | Some matrix \<Rightarrow> and_then (get_matrix matrix) (\<lambda>mat. Inr (set_matrix mat input)))"

text \<open>The body of the loop over the members of \<^verbatim>\<open>matrices\<close>.\<close>

definition add_profile_matrices :: "string \<times> json \<Rightarrow> Input \<Rightarrow> error + Input" where
  "add_profile_matrices profile_entry input =
     (case snd profile_entry of
        JObject members \<Rightarrow>
          and_then (set_matrix_if_present (snd profile_entry) ''durations''
                      (set_durations_matrix (fst profile_entry)) input) (\<lambda>input.
          and_then (set_matrix_if_present (snd profile_entry) ''distances''
                      (set_distances_matrix (fst profile_entry)) input) (\<lambda>input.
          set_matrix_if_present (snd profile_entry) ''costs''
            (set_costs_matrix (fst profile_entry)) input))
      | _ \<Rightarrow> Inr input)"

definition add_matrices :: "json \<Rightarrow> Input \<Rightarrow> error + Input" where
  "add_matrices json_input input =
     and_then (FindMember json_input ''matrices'')
       (\<lambda>m. case m of
            Some (JObject profiles) \<Rightarrow> for_each add_profile_matrices profiles input
          | Some _ \<Rightarrow> Inl (InputException ''Unexpected matrices value.'')
          | None \<Rightarrow>
              and_then (FindMember json_input ''matrix'')
                (\<lambda>m. case m of
                     None \<Rightarrow> Inr input
                   | Some matrix \<Rightarrow>
                       and_then (get_matrix matrix)
                         (\<lambda>mat. Inr (set_durations_matrix DEFAULT_PROFILE mat input))))"

text \<open>
  \<^verbatim>\<open>HasMember(key) && v[key].IsArray() && !v[key].Empty()\<close>, as computed for \<^verbatim>\<open>jobs\<close> and
  \<^verbatim>\<open>shipments\<close>.
\<close>

definition has_nonempty_array :: "json \<Rightarrow> string \<Rightarrow> error + bool" where
  "has_nonempty_array json_input key =
     and_then (FindMember json_input key)
       (\<lambda>m. Inr (case m of Some (JArray (_ # _)) \<Rightarrow> True | _ \<Rightarrow> False))"

text \<open>
  The amount size: the length of the capacity array of the first vehicle, 0 when it has
  no such array.
\<close>

definition first_vehicle_amount_size :: "json \<Rightarrow> error + nat" where
  "first_vehicle_amount_size first_vehicle =
     and_then (FindMember first_vehicle ''capacity'')
       (\<lambda>m. Inr (case m of Some (JArray xs) \<Rightarrow> length xs | _ \<Rightarrow> 0))"

text \<open>The tasks: the jobs when there are any, then the shipments when there are any.\<close>

definition add_tasks ::
  "externals \<Rightarrow> nat \<Rightarrow> bool \<Rightarrow> bool \<Rightarrow> json \<Rightarrow> Input \<Rightarrow> error + Input" where
  "add_tasks ext amount_size has_jobs has_shipments json_input input =
     and_then
       (if has_jobs
        then and_then (at_key json_input ''jobs'') (\<lambda>a.
             and_then (GetArray a) (\<lambda>json_jobs.
             for_each (add_json_job ext amount_size) json_jobs input))
        else Inr input) (\<lambda>input.
     if has_shipments
     then and_then (at_key json_input ''shipments'') (\<lambda>a.
          and_then (GetArray a) (\<lambda>json_shipments.
          for_each (add_json_shipment ext amount_size) json_shipments input))
     else Inr input)"

text \<open>
  Everything \<open>parse\<close> does once the main checks on jobs, shipments and vehicles have
  passed; \<open>json_vehicles\<close> are the elements of the (nonempty) vehicles array. First the
  amount size, the vehicles and the tasks, then the matrices.
\<close>

definition add_vehicles_and_tasks ::
  "externals \<Rightarrow> Input \<Rightarrow> json \<Rightarrow> bool \<Rightarrow> bool \<Rightarrow> bool \<Rightarrow> json list \<Rightarrow> error + Input" where
  "add_vehicles_and_tasks ext input json_input geometry has_jobs has_shipments json_vehicles =
     and_then (check_id (hd json_vehicles) ''vehicle'') (\<lambda>_.
     and_then (first_vehicle_amount_size (hd json_vehicles)) (\<lambda>amount_size.
     and_then (for_each (add_json_vehicle ext amount_size) json_vehicles
                 (set_geometry geometry (set_amount_size amount_size input))) (\<lambda>input.
     add_tasks ext amount_size has_jobs has_shipments json_input input)))"

definition ingest ::
  "externals \<Rightarrow> Input \<Rightarrow> json \<Rightarrow> bool \<Rightarrow> bool \<Rightarrow> bool \<Rightarrow> json list \<Rightarrow> error + Input" where
  "ingest ext input json_input geometry has_jobs has_shipments json_vehicles =
     and_then (add_vehicles_and_tasks ext input json_input geometry has_jobs has_shipments
                 json_vehicles)
       (\<lambda>input. add_matrices json_input input)"

text \<open>
  \<open>parse\<close> itself. Its argument \<open>document\<close> is the result of rapidjson on the input string:
  the message and the offset of a parse error, or the document.
\<close>

definition parse :: "externals \<Rightarrow> Input \<Rightarrow> (string \<times> nat) + json \<Rightarrow> bool \<Rightarrow> error + Input" where
  "parse ext input document geometry =
     (case document of
        Inl parse_error \<Rightarrow>
          Inl (InputException
                 (fst parse_error @ '' (offset: '' @ to_string (snd parse_error) @ '')''))
      | Inr json_input \<Rightarrow>
          and_then (has_nonempty_array json_input ''jobs'') (\<lambda>has_jobs.
          and_then (has_nonempty_array json_input ''shipments'') (\<lambda>has_shipments.
          if \<not> has_jobs \<and> \<not> has_shipments
          then Inl (InputException ''Invalid jobs or shipments.'')
          else
            and_then (FindMember json_input ''vehicles'')
              (\<lambda>m. case m of
                   Some (JArray (first_vehicle # more_vehicles)) \<Rightarrow>
                     ingest ext input json_input geometry has_jobs has_shipments
                       (first_vehicle # more_vehicles)
                 | _ \<Rightarrow> Inl (InputException ''Invalid vehicles.'')))))"

section \<open>Notions used to state the properties\<close>

text \<open>An optional member that is an array with at least one element.\<close>

definition is_nonempty_array :: "json option \<Rightarrow> bool" where
  "is_nonempty_array m = (case m of Some (JArray (_ # _)) \<Rightarrow> True | _ \<Rightarrow> False)"

text \<open>The elements of an optional member when it is an array, no elements otherwise.\<close>

definition array_elements :: "json option \<Rightarrow> json list" where
  "array_elements m = (case m of Some (JArray xs) \<Rightarrow> xs | _ \<Rightarrow> [])"

text \<open>The first member of that name of an object; nothing for any other value.\<close>

definition lookup :: "json \<Rightarrow> string \<Rightarrow> json option" where
  "lookup v key = (case v of JObject members \<Rightarrow> map_of members key | _ \<Rightarrow> None)"

text \<open>An object without its members of a given name.\<close>

definition remove_member :: "string \<Rightarrow> (string \<times> json) list \<Rightarrow> (string \<times> json) list" where
  "remove_member key members = filter (\<lambda>m. fst m \<noteq> key) members"

text \<open>
  The vehicles that one iteration of the vehicle loop adds, as a list: the loop body
  without the calls of \<open>add_vehicle\<close> (lemma \<open>add_json_vehicle_eq\<close> below relates the two).
\<close>

definition vehicles_of_json_vehicle :: "externals \<Rightarrow> nat \<Rightarrow> json \<Rightarrow> error + Vehicle list" where
  "vehicles_of_json_vehicle ext amount_size json_vehicle =
     and_then (FindMember json_vehicle ''time_windows'')
       (\<lambda>m. case m of
            None \<Rightarrow>
              and_then (get_vehicle_time_window ext json_vehicle) (\<lambda>tw.
              and_then (get_vehicle ext json_vehicle amount_size tw) (\<lambda>vehicle.
              Inr [vehicle]))
          | Some _ \<Rightarrow>
              and_then (get_time_windows ext json_vehicle) (\<lambda>timeWindows.
              and_then (check_id json_vehicle ''vehicle'') (\<lambda>_.
              and_then (at_key json_vehicle ''id'') (\<lambda>i.
              and_then (GetUint64 i) (\<lambda>v_id.
              and_then (check_tws ext timeWindows v_id ''vehicle'') (\<lambda>_.
              map_result (get_vehicle ext json_vehicle amount_size) timeWindows))))))"

definition append_vehicles :: "Vehicle list \<Rightarrow> Input \<Rightarrow> Input" where
  "append_vehicles vs input = input\<lparr>input_vehicles := input_vehicles input @ vs\<rparr>"

text \<open>Two inputs that differ at most in their matrices.\<close>

definition same_tasks :: "Input \<Rightarrow> Input \<Rightarrow> bool" where
  "same_tasks a b \<longleftrightarrow>
     input_amount_size a = input_amount_size b \<and> input_geometry a = input_geometry b
     \<and> input_vehicles a = input_vehicles b \<and> input_jobs a = input_jobs b
     \<and> input_shipments a = input_shipments b"

text \<open>
  The fields of a shipment task that are read from its own object (the pickup or the
  delivery object of the shipment): id, location, setup, service, the service durations
  per vehicle type, time windows and description.
\<close>

definition task_fields_from :: "externals \<Rightarrow> json \<Rightarrow> string \<Rightarrow> Job \<Rightarrow> bool" where
  "task_fields_from ext json_task type job \<longleftrightarrow>
     and_then (at_key json_task ''id'') GetUint64 = Inr (job_id job)
     \<and> get_task_location json_task type = Inr (job_location job)
     \<and> get_duration json_task ''setup'' = Inr (job_setup job)
     \<and> get_duration json_task ''service'' = Inr (job_service job)
     \<and> get_duration_map json_task ''service_per_vehicle_type''
         = Inr (job_service_per_vehicle_type job)
     \<and> get_time_windows ext json_task = Inr (job_tws job)
     \<and> get_string json_task ''description'' = Inr (job_description job)"

text \<open>
  The deprecated \<^verbatim>\<open>matrix\<close> key rewritten to the current form: every member
  \<^verbatim>\<open>"matrix": M\<close> becomes the member \<^verbatim>\<open>"matrices": {"car": {"durations": M}}\<close>, in place.
\<close>

definition matrices_of_matrix :: "json \<Rightarrow> json" where
  "matrices_of_matrix matrix = JObject [(DEFAULT_PROFILE, JObject [(''durations'', matrix)])]"

definition replace_matrix_key :: "(string \<times> json) list \<Rightarrow> (string \<times> json) list" where
  "replace_matrix_key members =
     map (\<lambda>member. if fst member = ''matrix''
                    then (''matrices'', matrices_of_matrix (snd member)) else member) members"

text \<open>
  The main checks of \<open>parse\<close> on the members of the document: the exception thrown, or the
  elements of the vehicles array (lemma \<open>parse_phases\<close> below).
\<close>

definition main_checks :: "(string \<times> json) list \<Rightarrow> error + json list" where
  "main_checks members =
     (if \<not> is_nonempty_array (map_of members ''jobs'')
         \<and> \<not> is_nonempty_array (map_of members ''shipments'')
      then Inl (InputException ''Invalid jobs or shipments.'')
      else if is_nonempty_array (map_of members ''vehicles'')
        then Inr (array_elements (map_of members ''vehicles''))
        else Inl (InputException ''Invalid vehicles.''))"

text \<open>
  The vehicles that a vehicle object is expanded to. With a \<^verbatim>\<open>time_windows\<close> key: as many
  vehicles as the array has windows, their time windows being the sorted list that
  \<open>get_time_windows\<close> returns, each built by \<open>get_vehicle\<close> from the object and its window,
  any two of them equal up to the time window. Without the key: one vehicle, whose time
  window is read from \<^verbatim>\<open>time_window\<close>, or is the default window when that is absent too.
\<close>

definition expands_to :: "externals \<Rightarrow> nat \<Rightarrow> json \<Rightarrow> Vehicle list \<Rightarrow> bool" where
  "expands_to ext n json_vehicle vs \<longleftrightarrow>
     (case lookup json_vehicle ''time_windows'' of
        Some tws \<Rightarrow>
          length vs = length (array_elements (Some tws))
          \<and> get_time_windows ext json_vehicle = Inr (map vehicle_tw vs)
          \<and> (\<forall>v\<in>set vs. get_vehicle ext json_vehicle n (vehicle_tw v) = Inr v)
          \<and> (\<forall>v\<in>set vs. \<forall>v'\<in>set vs. v'\<lparr>vehicle_tw := vehicle_tw v\<rparr> = v)
      | None \<Rightarrow>
          (\<exists>v. vs = [v]
             \<and> get_vehicle ext json_vehicle n (vehicle_tw v) = Inr v
             \<and> (case lookup json_vehicle ''time_window'' of
                  None \<Rightarrow> vehicle_tw v = TimeWindow_default ext
                | Some tw \<Rightarrow> get_time_window tw = Inr (vehicle_tw v))))"

text \<open>
  An amount array of the right length: whatever an object holds under the key, if it is
  an array, it has \<open>n\<close> entries. \<open>amounts_fit\<close> says so for every amount that \<open>parse\<close> reads:
  the capacity of every vehicle, the maximal load of every break of a vehicle, delivery
  and pickup of every job, the deprecated amount of every job with neither of these two
  keys, and the amount of every shipment.
\<close>

definition amount_fits :: "nat \<Rightarrow> json \<Rightarrow> string \<Rightarrow> bool" where
  "amount_fits n object key =
     (case lookup object key of Some (JArray xs) \<Rightarrow> length xs = n | _ \<Rightarrow> True)"

definition amounts_fit :: "nat \<Rightarrow> json \<Rightarrow> bool" where
  "amounts_fit n json_input \<longleftrightarrow>
     (\<forall>v\<in>set (array_elements (lookup json_input ''vehicles'')).
        amount_fits n v ''capacity''
        \<and> (\<forall>b\<in>set (array_elements (lookup v ''breaks'')). amount_fits n b ''max_load''))
     \<and> (\<forall>j\<in>set (array_elements (lookup json_input ''jobs'')).
          amount_fits n j ''delivery'' \<and> amount_fits n j ''pickup''
          \<and> (lookup j ''delivery'' = None \<and> lookup j ''pickup'' = None
               \<longrightarrow> amount_fits n j ''amount''))
     \<and> (\<forall>s\<in>set (array_elements (lookup json_input ''shipments'')).
          amount_fits n s ''amount'')"

text \<open>
  A time window whose start exceeds its end: an array whose first two entries are
  unsigned integers, the first greater than the second. \<open>windows_well_formed\<close> says that
  no time window that \<open>parse\<close> reads is of this kind: the \<^verbatim>\<open>time_windows\<close> of every vehicle,
  or else its \<^verbatim>\<open>time_window\<close>, and the \<^verbatim>\<open>time_windows\<close> of every break of a vehicle, of
  every job and of the pickup and the delivery of every shipment.
\<close>

definition start_exceeds_end :: "json \<Rightarrow> bool" where
  "start_exceeds_end tw =
     (case tw of
        JArray (a # b # _) \<Rightarrow>
          (case uint_value a of
             Some start \<Rightarrow> (case uint_value b of Some end \<Rightarrow> end < start | None \<Rightarrow> False)
           | None \<Rightarrow> False)
      | _ \<Rightarrow> False)"

definition windows_of :: "json \<Rightarrow> json list" where
  "windows_of object = array_elements (lookup object ''time_windows'')"

definition windows_well_formed :: "json \<Rightarrow> bool" where
  "windows_well_formed json_input \<longleftrightarrow>
     (\<forall>v\<in>set (array_elements (lookup json_input ''vehicles'')).
        (case lookup v ''time_windows'' of
           Some _ \<Rightarrow> (\<forall>tw\<in>set (windows_of v). \<not> start_exceeds_end tw)
         | None \<Rightarrow>
             (case lookup v ''time_window'' of
                Some tw \<Rightarrow> \<not> start_exceeds_end tw
              | None \<Rightarrow> True))
        \<and> (\<forall>b\<in>set (array_elements (lookup v ''breaks'')).
             \<forall>tw\<in>set (windows_of b). \<not> start_exceeds_end tw))
     \<and> (\<forall>j\<in>set (array_elements (lookup json_input ''jobs'')).
          \<forall>tw\<in>set (windows_of j). \<not> start_exceeds_end tw)
     \<and> (\<forall>s\<in>set (array_elements (lookup json_input ''shipments'')).
          \<forall>key\<in>{''pickup'', ''delivery''}. \<forall>task. lookup s key = Some task
            \<longrightarrow> (\<forall>tw\<in>set (windows_of task). \<not> start_exceeds_end tw))"

subsection \<open>Values for the examples\<close>

text \<open>
  An instance of the parameters: the default time window spans all non-negative
  durations and \<open>check_tws\<close> accepts every list. An input to which nothing has been added.
\<close>

definition example_externals :: externals where
  "example_externals =
     \<lparr>TimeWindow_default = \<lparr>tw_start = 0, tw_end = 9223372036854775807\<rparr>,
      check_tws = (\<lambda>tws v_id type. Inr ())\<rparr>"

definition empty_input :: Input where
  "empty_input =
     \<lparr>input_amount_size = 0, input_geometry = False, input_vehicles = [], input_jobs = [],
      input_shipments = [], durations_matrices = Map.empty, distances_matrices = Map.empty,
      costs_matrices = Map.empty\<rparr>"

definition JUint :: "nat \<Rightarrow> json" where
  "JUint n = JNumber (Integer (int n))"

text \<open>A document with two vehicle objects, two jobs, a shipment and the deprecated matrix key,
  and the input it is parsed to.\<close>

definition example_vehicles :: "json list" where
  "example_vehicles =
     [JObject [(''id'', JUint 1), (''start'', JArray [JUint 0, JUint 0]),
               (''capacity'', JArray [JUint 4]),
               (''time_windows'', JArray [JArray [JUint 100, JUint 200], JArray [JUint 0, JUint 50]]),
               (''breaks'', JArray [JObject [(''id'', JUint 1), (''max_load'', JArray [JUint 2]),
                                            (''time_windows'', JArray [JArray [JUint 10, JUint 20]])]])],
      JObject [(''id'', JUint 2), (''end_index'', JUint 3), (''capacity'', JArray [JUint 6]),
               (''time_window'', JArray [JUint 5, JUint 9])]]"

definition example_jobs :: "json list" where
  "example_jobs =
     [JObject [(''id'', JUint 7), (''location'', JArray [JUint 2, JUint 3]),
               (''amount'', JArray [JUint 5])],
      JObject [(''id'', JUint 8), (''location_index'', JUint 1), (''pickup'', JArray [JUint 1]),
               (''time_windows'', JArray [JArray [JUint 0, JUint 10]])]]"

definition example_shipment :: json where
  "example_shipment =
     JObject [(''amount'', JArray [JUint 2]), (''skills'', JArray [JUint 3]),
              (''priority'', JUint 10),
              (''pickup'', JObject [(''id'', JUint 9), (''location_index'', JUint 2)]),
              (''delivery'', JObject [(''id'', JUint 10), (''location'', JArray [JUint 4, JUint 5]),
                                      (''location_index'', JUint 3), (''service'', JUint 60)])]"

definition example_shipments :: "json list" where
  "example_shipments = [example_shipment]"

definition example_members :: "(string \<times> json) list" where
  "example_members =
     [(''vehicles'', JArray example_vehicles), (''jobs'', JArray example_jobs),
      (''shipments'', JArray example_shipments),
      (''matrix'', JArray [JArray [JUint 0, JUint 1], JArray [JUint 1, JUint 0]])]"

definition example_document :: json where
  "example_document = JObject example_members"

definition example_vehicle_1 :: "TimeWindow \<Rightarrow> Vehicle" where
  "example_vehicle_1 tw =
     \<lparr>vehicle_id = 1,
      vehicle_start = Some (Location_coords \<lparr>lon = Integer 0, lat = Integer 0\<rparr>),
      vehicle_end = None, vehicle_profile = ''car'', vehicle_capacity = [4],
      vehicle_skills = {}, vehicle_tw = tw,
      vehicle_breaks =
        [\<lparr>break_id = 1, break_tws = [\<lparr>tw_start = 1000, tw_end = 2000\<rparr>],
          break_service = 0, break_description = '''', break_max_load = Some [2]\<rparr>],
      vehicle_description = '''',
      vehicle_costs = \<lparr>fixed = 0, per_hour = 3600, per_km = 0\<rparr>,
      vehicle_speed_factor = Integer 1, vehicle_service_type = None,
      vehicle_max_tasks = None, vehicle_max_travel_time = None,
      vehicle_max_distance = None, vehicle_steps = []\<rparr>"

definition example_vehicle_2 :: Vehicle where
  "example_vehicle_2 =
     \<lparr>vehicle_id = 2, vehicle_start = None, vehicle_end = Some (Location_index 3),
      vehicle_profile = ''car'', vehicle_capacity = [6], vehicle_skills = {},
      vehicle_tw = \<lparr>tw_start = 500, tw_end = 900\<rparr>, vehicle_breaks = [],
      vehicle_description = '''',
      vehicle_costs = \<lparr>fixed = 0, per_hour = 3600, per_km = 0\<rparr>,
      vehicle_speed_factor = Integer 1, vehicle_service_type = None,
      vehicle_max_tasks = None, vehicle_max_travel_time = None,
      vehicle_max_distance = None, vehicle_steps = []\<rparr>"

definition example_pickup_job :: Job where
  "example_pickup_job =
     Job_typed 9 PICKUP (Location_index 2) 0 0 Map.empty [2] {3} 10
       [\<lparr>tw_start = 0, tw_end = 9223372036854775807\<rparr>] ''''"

definition example_delivery_job :: Job where
  "example_delivery_job =
     Job_typed 10 DELIVERY (Location_index_coords 3 \<lparr>lon = Integer 4, lat = Integer 5\<rparr>)
       0 60 Map.empty [2] {3} 10 [\<lparr>tw_start = 0, tw_end = 9223372036854775807\<rparr>] ''''"

definition example_result :: Input where
  "example_result =
     \<lparr>input_amount_size = 1, input_geometry = False,
      input_vehicles =
        [example_vehicle_1 \<lparr>tw_start = 0, tw_end = 5000\<rparr>,
         example_vehicle_1 \<lparr>tw_start = 10000, tw_end = 20000\<rparr>,
         example_vehicle_2],
      input_jobs =
        [Job 7 (Location_coords \<lparr>lon = Integer 2, lat = Integer 3\<rparr>) 0 0 Map.empty
           [5] [0] {} 0 [\<lparr>tw_start = 0, tw_end = 9223372036854775807\<rparr>] '''',
         Job 8 (Location_index 1) 0 0 Map.empty
           [0] [1] {} 0 [\<lparr>tw_start = 0, tw_end = 1000\<rparr>] ''''],
      input_shipments = [(example_pickup_job, example_delivery_job)],
      durations_matrices = [''car'' \<mapsto> [[0, 1], [1, 0]]],
      distances_matrices = Map.empty, costs_matrices = Map.empty\<rparr>"

text \<open>
  A document with one vehicle and one job that has both the deprecated \<^verbatim>\<open>matrix\<close> key and
  a (later) \<^verbatim>\<open>matrices\<close> key without profiles, and the input it is parsed to.
\<close>

definition small_vehicle_object :: json where
  "small_vehicle_object = JObject [(''id'', JUint 1), (''start'', JArray [JUint 0, JUint 0])]"

definition small_job_object :: json where
  "small_job_object = JObject [(''id'', JUint 7), (''location'', JArray [JUint 1, JUint 1])]"

definition matrix_and_matrices_members :: "(string \<times> json) list" where
  "matrix_and_matrices_members =
     [(''vehicles'', JArray [small_vehicle_object]), (''jobs'', JArray [small_job_object]),
      (''matrix'', JArray [JArray [JUint 0]]), (''matrices'', JObject [])]"

definition small_vehicle :: Vehicle where
  "small_vehicle =
     \<lparr>vehicle_id = 1,
      vehicle_start = Some (Location_coords \<lparr>lon = Integer 0, lat = Integer 0\<rparr>),
      vehicle_end = None, vehicle_profile = ''car'', vehicle_capacity = [],
      vehicle_skills = {}, vehicle_tw = \<lparr>tw_start = 0, tw_end = 9223372036854775807\<rparr>,
      vehicle_breaks = [], vehicle_description = '''',
      vehicle_costs = \<lparr>fixed = 0, per_hour = 3600, per_km = 0\<rparr>,
      vehicle_speed_factor = Integer 1, vehicle_service_type = None,
      vehicle_max_tasks = None, vehicle_max_travel_time = None,
      vehicle_max_distance = None, vehicle_steps = []\<rparr>"

definition small_job :: Job where
  "small_job =
     Job 7 (Location_coords \<lparr>lon = Integer 1, lat = Integer 1\<rparr>) 0 0 Map.empty [] [] {} 0
       [\<lparr>tw_start = 0, tw_end = 9223372036854775807\<rparr>] ''''"

definition small_result :: Input where
  "small_result =
     \<lparr>input_amount_size = 0, input_geometry = False, input_vehicles = [small_vehicle],
      input_jobs = [small_job], input_shipments = [], durations_matrices = Map.empty,
      distances_matrices = Map.empty, costs_matrices = Map.empty\<rparr>"

text \<open>
  A document whose only job has a \<^verbatim>\<open>delivery\<close> key and, next to it, an \<^verbatim>\<open>amount\<close> array with
  two entries, the amount size being 1; and the input it is parsed to.
\<close>

definition ignored_amount_job_object :: json where
  "ignored_amount_job_object =
     JObject [(''id'', JUint 8), (''location'', JArray [JUint 1, JUint 1]),
              (''amount'', JArray [JUint 9, JUint 9]), (''delivery'', JArray [JUint 4])]"

definition ignored_amount_members :: "(string \<times> json) list" where
  "ignored_amount_members =
     [(''vehicles'', JArray [JObject [(''id'', JUint 1), (''start'', JArray [JUint 0, JUint 0]),
                                      (''capacity'', JArray [JUint 4])]]),
      (''jobs'', JArray [ignored_amount_job_object])]"

definition ignored_amount_result :: Input where
  "ignored_amount_result =
     \<lparr>input_amount_size = 1, input_geometry = False,
      input_vehicles = [small_vehicle\<lparr>vehicle_capacity := [4]\<rparr>],
      input_jobs =
        [Job 8 (Location_coords \<lparr>lon = Integer 1, lat = Integer 1\<rparr>) 0 0 Map.empty [4] [0]
           {} 0 [\<lparr>tw_start = 0, tw_end = 9223372036854775807\<rparr>] ''''],
      input_shipments = [], durations_matrices = Map.empty,
      distances_matrices = Map.empty, costs_matrices = Map.empty\<rparr>"

text \<open>
  A document whose only vehicle has a \<^verbatim>\<open>time_windows\<close> key and, next to it, a
  \<^verbatim>\<open>time_window\<close> from 5 to 1; and the input it is parsed to.
\<close>

definition ignored_window_vehicle_object :: json where
  "ignored_window_vehicle_object =
     JObject [(''id'', JUint 1), (''start'', JArray [JUint 0, JUint 0]),
              (''time_window'', JArray [JUint 5, JUint 1]),
              (''time_windows'', JArray [JArray [JUint 0, JUint 10]])]"

definition ignored_window_members :: "(string \<times> json) list" where
  "ignored_window_members =
     [(''vehicles'', JArray [ignored_window_vehicle_object]),
      (''jobs'', JArray [small_job_object])]"

definition ignored_window_result :: Input where
  "ignored_window_result =
     \<lparr>input_amount_size = 0, input_geometry = False,
      input_vehicles = [small_vehicle\<lparr>vehicle_tw := \<lparr>tw_start = 0, tw_end = 1000\<rparr>\<rparr>],
      input_jobs = [small_job], input_shipments = [], durations_matrices = Map.empty,
      distances_matrices = Map.empty, costs_matrices = Map.empty\<rparr>"



section \<open>Properties of the scaling helpers\<close>

lemma sint_word_of_int_small:
  "0 \<le> k \<Longrightarrow> k < 2 ^ 63 \<Longrightarrow> sint (word_of_int k :: 64 word) = k"
  by (simp add: sint_sbintrunc' signed_take_bit_int_eq_self)

lemma sint_scaled:
  fixes w :: "32 word"
  assumes "0 \<le> f" and "f \<le> 360000"
  shows "sint (word_of_int f * ucast w :: 64 word) = f * uint w"
proof -
  have b: "0 \<le> uint w" "uint w < 2 ^ 32"
    using uint_bounded [of w] by simp_all
  have "f * uint w \<le> 360000 * uint w"
    using assms b by (intro mult_right_mono) simp_all
  with b have "f * uint w < 2 ^ 63"
    by simp
  moreover have "0 \<le> f * uint w"
    using assms b by simp
  moreover have "(word_of_int f * ucast w :: 64 word) = word_of_int (f * uint w)"
    by simp
  ultimately show ?thesis
    by (simp only: sint_word_of_int_small)
qed

lemma sdiv_of_multiple:
  fixes f x :: int
  assumes "0 < f" and "0 \<le> x"
  shows "(f * x) sdiv f = x"
proof (cases "x = 0")
  case True
  then show ?thesis
    by (simp add: signed_divide_int_def)
next
  case False
  with assms have "0 < x"
    by simp
  with assms have "sgn (f * x) = 1" and "\<bar>f * x\<bar> = f * x" and "sgn f = 1" and "\<bar>f\<bar> = f"
    by simp_all
  then show ?thesis
    using assms by (simp add: signed_divide_int_def)
qed

lemma sint_scale_from_user_duration:
  "sint (scale_from_user_duration d) = 100 * uint d"
  using sint_scaled [of 100 d] by (simp add: scale_from_user_duration_def DURATION_FACTOR_def)

lemma sint_scale_from_user_cost:
  "sint (scale_from_user_cost c) = 360000 * uint c"
  using sint_scaled [of 360000 c]
  by (simp add: scale_from_user_cost_def DURATION_FACTOR_def COST_FACTOR_def)

lemma narrow_quotient:
  fixes w :: "32 word"
  shows "(ucast (word_of_int (uint w) :: 64 word) :: 32 word) = w"
proof -
  have "(word_of_int (uint w) :: 64 word) = ucast w"
    by simp
  then show ?thesis
    by (simp add: ucast_up_ucast_id is_up)
qed

lemma scale_to_user_duration_inverse:
  "scale_to_user_duration (scale_from_user_duration d) = Inr d"
proof -
  have "uint d \<le> uint UserDuration_max"
    using uint_bounded [of d] by (simp add: UserDuration_max_def)
  then have le: "scale_from_user_duration d \<le>s scale_from_user_duration UserDuration_max"
    by (simp add: word_sle_eq sint_scale_from_user_duration)
  have "sint (scale_from_user_duration d) sdiv sint DURATION_FACTOR = uint d"
    using sdiv_of_multiple [of 100 "uint d"]
    by (simp add: sint_scale_from_user_duration DURATION_FACTOR_def)
  then have "ucast (sdiv64 (scale_from_user_duration d) DURATION_FACTOR) = d"
    by (simp only: sdiv64_def narrow_quotient)
  with le show ?thesis
    by (simp add: scale_to_user_duration_def)
qed

lemma scale_to_user_cost_inverse:
  "scale_to_user_cost (scale_from_user_cost c) = Inr c"
proof -
  have "uint c \<le> uint UserCost_max"
    using uint_bounded [of c] by (simp add: UserCost_max_def)
  then have le: "scale_from_user_cost c \<le>s scale_from_user_cost UserCost_max"
    by (simp add: word_sle_eq sint_scale_from_user_cost)
  have "sint (DURATION_FACTOR * COST_FACTOR) = 360000"
    by (simp add: DURATION_FACTOR_def COST_FACTOR_def)
  then have "sint (scale_from_user_cost c) sdiv sint (DURATION_FACTOR * COST_FACTOR) = uint c"
    using sdiv_of_multiple [of 360000 "uint c"]
    by (simp add: sint_scale_from_user_cost)
  then have "ucast (sdiv64 (scale_from_user_cost c) (DURATION_FACTOR * COST_FACTOR)) = c"
    by (simp only: sdiv64_def narrow_quotient)
  with le show ?thesis
    by (simp add: scale_to_user_cost_def)
qed

text \<open>
  Claim C8. Read as a signed 64-bit integer, the internal duration is exactly 100 times
  the user duration and the internal cost exactly 100 \<times> 3600 times the user cost (the
  64-bit products do not wrap); scaling a user value and scaling it back passes the
  assertion and returns the value unchanged.
\<close>

theorem scaling_roundtrip:
  "sint (scale_from_user_duration d) = 100 * uint d
   \<and> sint (scale_from_user_cost c) = 100 * 3600 * uint c
   \<and> scale_to_user_duration (scale_from_user_duration d) = Inr d
   \<and> scale_to_user_cost (scale_from_user_cost c) = Inr c"
  by (simp add: sint_scale_from_user_duration sint_scale_from_user_cost
      scale_to_user_duration_inverse scale_to_user_cost_inverse)

text \<open>
  Claim C9. The 32-bit product defining \<open>INFINITE_USER_COST\<close> does not wrap: its value is
  3 \<sqdot> (max UserCost div 4) = 3221225469. Converted to the signed 64-bit \<open>Cost\<close>, by the
  plain cast as well as by \<open>scale_from_user_cost\<close>, the value is positive, the 64-bit
  sum of four copies equals the exact sum, and that sum is strictly below the maximum
  \<open>Cost\<close>; sums of fewer copies are smaller still.
\<close>

theorem infinite_user_cost_headroom:
  "unat INFINITE_USER_COST = 3 * (unat UserCost_max div 4)
   \<and> unat INFINITE_USER_COST = 3221225469
   \<and> 0 < sint (ucast INFINITE_USER_COST :: Cost)
   \<and> sint (ucast INFINITE_USER_COST + ucast INFINITE_USER_COST
           + ucast INFINITE_USER_COST + ucast INFINITE_USER_COST :: Cost)
       = 4 * sint (ucast INFINITE_USER_COST :: Cost)
   \<and> 4 * sint (ucast INFINITE_USER_COST :: Cost) < sint Cost_max
   \<and> 0 < sint (scale_from_user_cost INFINITE_USER_COST)
   \<and> sint (scale_from_user_cost INFINITE_USER_COST + scale_from_user_cost INFINITE_USER_COST
           + scale_from_user_cost INFINITE_USER_COST + scale_from_user_cost INFINITE_USER_COST)
       = 4 * sint (scale_from_user_cost INFINITE_USER_COST)
   \<and> 4 * sint (scale_from_user_cost INFINITE_USER_COST) < sint Cost_max"
  by (simp add: INFINITE_USER_COST_def UserCost_max_def Cost_max_def scale_from_user_cost_def
      DURATION_FACTOR_def COST_FACTOR_def)

section \<open>Sequencing, loops and what a successful parse has read\<close>

text \<open>
  The laws of \<open>and_then\<close>, the loops of \<open>parse\<close> as \<open>map_result\<close> over the elements of an
  array, the fields that the matrices leave alone, and the inversion of a successful
  \<open>parse\<close>: which steps have succeeded and what the resulting input holds.
\<close>

lemma and_then_Inl [simp]: "and_then (Inl e) f = Inl e"
  by (simp add: and_then_def)

lemma and_then_Inr [simp]: "and_then (Inr x) f = f x"
  by (simp add: and_then_def)

lemma and_then_eq_Inr: "and_then m f = Inr y \<longleftrightarrow> (\<exists>x. m = Inr x \<and> f x = Inr y)"
  by (cases m) simp_all

lemma and_thenE:
  assumes "and_then m f = Inr y"
  obtains x where "m = Inr x" and "f x = Inr y"
  using assms by (auto simp: and_then_eq_Inr)

lemma map_result_eq_Inr:
  "map_result f xs = Inr ys \<longleftrightarrow> list_all2 (\<lambda>x y. f x = Inr y) xs ys"
proof (induction xs arbitrary: ys)
  case Nil
  then show ?case by auto
next
  case (Cons x xs)
  then show ?case
    by (cases ys) (auto simp: and_then_eq_Inr)
qed

lemma has_nonempty_array_object [simp]:
  "has_nonempty_array (JObject members) key = Inr (is_nonempty_array (map_of members key))"
  by (simp add: has_nonempty_array_def is_nonempty_array_def)

lemma parse_object_cases:
  "(\<not> is_nonempty_array (map_of members ''jobs'')
      \<and> \<not> is_nonempty_array (map_of members ''shipments'')
    \<longrightarrow> parse ext input (Inr (JObject members)) geometry
          = Inl (InputException ''Invalid jobs or shipments.''))
   \<and> ((is_nonempty_array (map_of members ''jobs'')
        \<or> is_nonempty_array (map_of members ''shipments''))
       \<and> \<not> is_nonempty_array (map_of members ''vehicles'')
    \<longrightarrow> parse ext input (Inr (JObject members)) geometry
          = Inl (InputException ''Invalid vehicles.''))
   \<and> ((is_nonempty_array (map_of members ''jobs'')
        \<or> is_nonempty_array (map_of members ''shipments''))
       \<and> map_of members ''vehicles'' = Some (JArray (first_vehicle # more_vehicles))
    \<longrightarrow> parse ext input (Inr (JObject members)) geometry
          = ingest ext input (JObject members) geometry
              (is_nonempty_array (map_of members ''jobs''))
              (is_nonempty_array (map_of members ''shipments''))
              (first_vehicle # more_vehicles))"
  by (auto simp: parse_def is_nonempty_array_def split: option.splits json.splits list.splits)

lemma map_of_remove_member_other [simp]:
  "k \<noteq> key \<Longrightarrow> map_of (remove_member key members) k = map_of members k"
  by (induction members) (auto simp: remove_member_def)

lemma map_of_remove_member_same [simp]:
  "map_of (remove_member key members) key = None"
  by (induction members) (auto simp: remove_member_def)

lemma id_string_remove_member [simp]:
  "key \<noteq> ''id'' \<Longrightarrow> id_string (JObject (remove_member key members)) = id_string (JObject members)"
  by (simp add: id_string_def at_key_def)

lemma check_id_remove_member [simp]:
  "key \<noteq> ''id'' \<Longrightarrow>
   check_id (JObject (remove_member key members)) type = check_id (JObject members) type"
  by (simp add: check_id_def)

lemma at_key_remove_member [simp]:
  "k \<noteq> key \<Longrightarrow> at_key (JObject (remove_member key members)) k = at_key (JObject members) k"
  by (simp add: at_key_def)

lemma parse_coordinates_remove_member [simp]:
  "k \<noteq> key \<Longrightarrow>
   parse_coordinates (JObject (remove_member key members)) k
   = parse_coordinates (JObject members) k"
  by (simp add: parse_coordinates_def)

lemma get_string_remove_member [simp]:
  "k \<noteq> key \<Longrightarrow>
   get_string (JObject (remove_member key members)) k = get_string (JObject members) k"
  by (simp add: get_string_def)

lemma get_amount_remove_member [simp]:
  "k \<noteq> key \<Longrightarrow>
   get_amount (JObject (remove_member key members)) k n = get_amount (JObject members) k n"
  by (simp add: get_amount_def)

lemma get_duration_remove_member [simp]:
  "k \<noteq> key \<Longrightarrow>
   get_duration (JObject (remove_member key members)) k = get_duration (JObject members) k"
  by (simp add: get_duration_def)

lemma get_duration_map_remove_member [simp]:
  "k \<noteq> key \<Longrightarrow>
   get_duration_map (JObject (remove_member key members)) k
   = get_duration_map (JObject members) k"
  by (simp add: get_duration_map_def)

lemma get_skills_remove_member [simp]:
  "key \<noteq> ''skills'' \<Longrightarrow>
   get_skills (JObject (remove_member key members)) = get_skills (JObject members)"
  by (simp add: get_skills_def)

lemma get_priority_remove_member [simp]:
  "key \<noteq> ''priority'' \<Longrightarrow>
   get_priority (JObject (remove_member key members)) = get_priority (JObject members)"
  by (simp add: get_priority_def)

lemma check_location_remove_member [simp]:
  "key \<noteq> ''id'' \<Longrightarrow> key \<noteq> ''location'' \<Longrightarrow>
   check_location (JObject (remove_member key members)) type
   = check_location (JObject members) type"
  by (simp add: check_location_def split: option.splits json.splits)

lemma get_task_location_remove_member [simp]:
  "key \<noteq> ''id'' \<Longrightarrow> key \<noteq> ''location'' \<Longrightarrow> key \<noteq> ''location_index'' \<Longrightarrow>
   get_task_location (JObject (remove_member key members)) type
   = get_task_location (JObject members) type"
  by (simp add: get_task_location_def split: option.splits)

lemma get_time_windows_remove_member [simp]:
  "key \<noteq> ''id'' \<Longrightarrow> key \<noteq> ''time_windows'' \<Longrightarrow>
   get_time_windows ext (JObject (remove_member key members))
   = get_time_windows ext (JObject members)"
  by (simp add: get_time_windows_def split: option.splits json.splits list.splits)

lemma get_job_without_amount:
  assumes "\<not> (map_of members ''amount'' \<noteq> None \<and> map_of members ''delivery'' = None
            \<and> map_of members ''pickup'' = None)"
  shows "get_job ext (JObject (remove_member ''amount'' members)) amount_size
         = get_job ext (JObject members) amount_size"
proof -
  have "need_amount_compat (JObject members) = Inr False"
    using assms by (auto simp: need_amount_compat_def)
  moreover have "need_amount_compat (JObject (remove_member ''amount'' members)) = Inr False"
    by (simp add: need_amount_compat_def)
  ultimately show ?thesis
    by (simp add: get_job_def)
qed

lemma need_amount_compat_object:
  "need_amount_compat (JObject members)
   = Inr (map_of members ''amount'' \<noteq> None \<and> map_of members ''delivery'' = None
          \<and> map_of members ''pickup'' = None)"
  by (simp add: need_amount_compat_def)

lemma get_amount_absent:
  "map_of members key = None \<Longrightarrow> get_amount (JObject members) key n = Inr (replicate n 0)"
  by (simp add: get_amount_def)

lemma and_then_assoc:
  "and_then (and_then m f) g = and_then m (\<lambda>x. and_then (f x) g)"
  by (cases m) simp_all

lemma and_then_cong_right:
  "(\<And>x. m = Inr x \<Longrightarrow> f x = g x) \<Longrightarrow> and_then m f = and_then m g"
  by (cases m) simp_all

lemma append_vehicles_add_vehicle:
  "append_vehicles vs (add_vehicle v input) = append_vehicles (v # vs) input"
  by (simp add: append_vehicles_def add_vehicle_def)

lemma append_vehicles_twice:
  "append_vehicles ws (append_vehicles vs input) = append_vehicles (vs @ ws) input"
  by (simp add: append_vehicles_def)

lemma add_vehicle_per_window_eq:
  "add_vehicle_per_window ext json_vehicle amount_size tws input
   = and_then (map_result (get_vehicle ext json_vehicle amount_size) tws)
       (\<lambda>vs. Inr (append_vehicles vs input))"
proof (induction tws arbitrary: input)
  case Nil
  show ?case by (simp add: append_vehicles_def)
next
  case (Cons tw tws)
  show ?case
    by (simp add: Cons.IH and_then_assoc append_vehicles_add_vehicle)
qed

lemma add_json_vehicle_eq:
  "add_json_vehicle ext amount_size json_vehicle input
   = and_then (vehicles_of_json_vehicle ext amount_size json_vehicle)
       (\<lambda>vs. Inr (append_vehicles vs input))"
  unfolding add_json_vehicle_def vehicles_of_json_vehicle_def and_then_assoc
  by (intro and_then_cong_right)
    (auto simp: add_vehicle_per_window_eq and_then_assoc append_vehicles_def add_vehicle_def
      split: option.splits)

lemma for_each_collect:
  assumes body: "\<And>x input. body x input = and_then (g x) (\<lambda>y. Inr (upd y input))"
  shows "for_each body xs input
         = and_then (map_result g xs) (\<lambda>ys. Inr (foldl (\<lambda>i y. upd y i) input ys))"
proof (induction xs arbitrary: input)
  case Nil
  show ?case by simp
next
  case (Cons x xs)
  have "for_each body (x # xs) input = and_then (body x input) (for_each body xs)"
    by simp
  also have "\<dots> = and_then (and_then (g x) (\<lambda>y. Inr (upd y input))) (for_each body xs)"
    by (simp only: body)
  also have "\<dots> = and_then (g x) (\<lambda>y. for_each body xs (upd y input))"
    by (simp add: and_then_assoc)
  also have "\<dots> = and_then (g x) (\<lambda>y. and_then (map_result g xs)
                 (\<lambda>ys. Inr (foldl (\<lambda>i y. upd y i) (upd y input) ys)))"
    by (simp only: Cons.IH)
  also have "\<dots> = and_then (map_result g (x # xs))
                 (\<lambda>ys. Inr (foldl (\<lambda>i y. upd y i) input ys))"
    by (simp add: and_then_assoc)
  finally show ?case .
qed

lemma foldl_append_vehicles:
  "foldl (\<lambda>i vs. append_vehicles vs i) input vss = append_vehicles (concat vss) input"
  by (induction vss arbitrary: input) (simp_all add: append_vehicles_def)

lemma for_each_add_json_vehicle:
  "for_each (add_json_vehicle ext n) json_vehicles input
   = and_then (map_result (vehicles_of_json_vehicle ext n) json_vehicles)
       (\<lambda>vss. Inr (append_vehicles (concat vss) input))"
  by (simp add: for_each_collect [where g = "vehicles_of_json_vehicle ext n"
        and upd = append_vehicles, OF add_json_vehicle_eq] foldl_append_vehicles)

lemma foldl_add_job:
  "foldl (\<lambda>i j. add_job j i) input js = input\<lparr>input_jobs := input_jobs input @ js\<rparr>"
  by (induction js arbitrary: input) (simp_all add: add_job_def)

lemma for_each_add_json_job:
  "for_each (add_json_job ext n) json_jobs input
   = and_then (map_result (\<lambda>j. get_job ext j n) json_jobs)
       (\<lambda>js. Inr (input\<lparr>input_jobs := input_jobs input @ js\<rparr>))"
  by (simp add: for_each_collect [where g = "\<lambda>j. get_job ext j n" and upd = add_job]
      add_json_job_def foldl_add_job)

lemma foldl_add_shipment:
  "foldl (\<lambda>i pd. add_shipment (fst pd) (snd pd) i) input ps
   = input\<lparr>input_shipments := input_shipments input @ ps\<rparr>"
  by (induction ps arbitrary: input) (simp_all add: add_shipment_def)

lemma for_each_add_json_shipment:
  "for_each (add_json_shipment ext n) json_shipments input
   = and_then (map_result (\<lambda>s. get_shipment ext s n) json_shipments)
       (\<lambda>ps. Inr (input\<lparr>input_shipments := input_shipments input @ ps\<rparr>))"
  by (simp add: for_each_collect [where g = "\<lambda>s. get_shipment ext s n"
        and upd = "\<lambda>pd. add_shipment (fst pd) (snd pd)"]
      add_json_shipment_def foldl_add_shipment)

lemma same_tasks_trans: "same_tasks a b \<Longrightarrow> same_tasks b c \<Longrightarrow> same_tasks a c"
  by (simp add: same_tasks_def)

lemma same_tasks_refl [simp]: "same_tasks a a"
  by (simp add: same_tasks_def)

lemma set_matrix_if_present_frame:
  assumes "set_matrix_if_present v key set_matrix input = Inr input'"
    and "\<And>m i. same_tasks (set_matrix m i) i"
  shows "same_tasks input' input"
proof -
  from assms(1) obtain m where m: "FindMember v key = Inr m"
    and r: "(case m of None \<Rightarrow> Inr input
             | Some matrix \<Rightarrow> and_then (get_matrix matrix) (\<lambda>mat. Inr (set_matrix mat input)))
            = Inr input'"
    unfolding set_matrix_if_present_def by (elim and_thenE)
  show ?thesis
  proof (cases m)
    case None
    with r show ?thesis by simp
  next
    case (Some matrix)
    with r obtain mat where "input' = set_matrix mat input"
      by (auto elim!: and_thenE)
    with assms(2) show ?thesis by simp
  qed
qed

lemma add_profile_matrices_frame:
  assumes "add_profile_matrices entry input = Inr input'"
  shows "same_tasks input' input"
proof (cases "snd entry")
  case (JObject members)
  with assms obtain a b where
    a: "set_matrix_if_present (snd entry) ''durations'' (set_durations_matrix (fst entry)) input = Inr a"
    and b: "set_matrix_if_present (snd entry) ''distances'' (set_distances_matrix (fst entry)) a = Inr b"
    and c: "set_matrix_if_present (snd entry) ''costs'' (set_costs_matrix (fst entry)) b = Inr input'"
    by (auto simp: add_profile_matrices_def and_then_eq_Inr)
  have "same_tasks a input"
    by (rule set_matrix_if_present_frame [OF a]) (simp add: same_tasks_def set_durations_matrix_def)
  moreover have "same_tasks b a"
    by (rule set_matrix_if_present_frame [OF b]) (simp add: same_tasks_def set_distances_matrix_def)
  moreover have "same_tasks input' b"
    by (rule set_matrix_if_present_frame [OF c]) (simp add: same_tasks_def set_costs_matrix_def)
  ultimately show ?thesis
    by (blast intro: same_tasks_trans)
qed (use assms in \<open>auto simp: add_profile_matrices_def\<close>)

lemma for_each_add_profile_matrices_frame:
  "for_each add_profile_matrices entries input = Inr input' \<Longrightarrow> same_tasks input' input"
proof (induction entries arbitrary: input)
  case Nil
  then show ?case by simp
next
  case (Cons entry entries)
  from Cons.prems obtain a where a: "add_profile_matrices entry input = Inr a"
    and r: "for_each add_profile_matrices entries a = Inr input'"
    by (auto elim!: and_thenE)
  from Cons.IH [OF r] add_profile_matrices_frame [OF a] show ?case
    by (rule same_tasks_trans)
qed

lemma add_matrices_frame:
  assumes "add_matrices json_input input = Inr input'"
  shows "same_tasks input' input"
proof -
  from assms obtain m where m: "FindMember json_input ''matrices'' = Inr m"
    and r: "(case m of
               Some (JObject profiles) \<Rightarrow> for_each add_profile_matrices profiles input
             | Some _ \<Rightarrow> Inl (InputException ''Unexpected matrices value.'')
             | None \<Rightarrow>
                 and_then (FindMember json_input ''matrix'')
                   (\<lambda>m. case m of
                        None \<Rightarrow> Inr input
                      | Some matrix \<Rightarrow>
                          and_then (get_matrix matrix)
                            (\<lambda>mat. Inr (set_durations_matrix DEFAULT_PROFILE mat input))))
            = Inr input'"
    unfolding add_matrices_def by (elim and_thenE)
  show ?thesis
  proof (cases m)
    case None
    with r have "set_matrix_if_present json_input ''matrix''
                   (set_durations_matrix DEFAULT_PROFILE) input = Inr input'"
      by (simp add: set_matrix_if_present_def)
    then show ?thesis
      by (rule set_matrix_if_present_frame) (simp add: same_tasks_def set_durations_matrix_def)
  next
    case (Some v)
    with r show ?thesis
      by (cases v) (simp_all add: for_each_add_profile_matrices_frame)
  qed
qed

lemma array_elements_not_nonempty:
  "\<not> is_nonempty_array m \<Longrightarrow> array_elements m = []"
  by (auto simp: is_nonempty_array_def array_elements_def split: option.splits json.splits list.splits)

lemma read_nonempty_array:
  "is_nonempty_array (map_of members key) \<Longrightarrow>
   and_then (at_key (JObject members) key) (\<lambda>a. and_then (GetArray a) f)
   = f (array_elements (map_of members key))"
  by (auto simp: is_nonempty_array_def array_elements_def at_key_def GetArray_def
      split: option.splits json.splits list.splits)

lemma add_tasks_eq:
  "add_tasks ext n (is_nonempty_array (map_of members ''jobs''))
     (is_nonempty_array (map_of members ''shipments'')) (JObject members) input
   = and_then (map_result (\<lambda>j. get_job ext j n) (array_elements (map_of members ''jobs'')))
       (\<lambda>js. and_then
          (map_result (\<lambda>s. get_shipment ext s n) (array_elements (map_of members ''shipments'')))
          (\<lambda>ps. Inr (input\<lparr>input_jobs := input_jobs input @ js,
                            input_shipments := input_shipments input @ ps\<rparr>)))"
proof -
  have jobs: "(if is_nonempty_array (map_of members ''jobs'')
        then and_then (at_key (JObject members) ''jobs'') (\<lambda>a.
             and_then (GetArray a) (\<lambda>json_jobs.
             for_each (add_json_job ext n) json_jobs input))
        else Inr input)
     = and_then (map_result (\<lambda>j. get_job ext j n) (array_elements (map_of members ''jobs'')))
         (\<lambda>js. Inr (input\<lparr>input_jobs := input_jobs input @ js\<rparr>))"
    by (simp add: read_nonempty_array for_each_add_json_job array_elements_not_nonempty)
  have shipments: "\<And>input. (if is_nonempty_array (map_of members ''shipments'')
        then and_then (at_key (JObject members) ''shipments'') (\<lambda>a.
             and_then (GetArray a) (\<lambda>json_shipments.
             for_each (add_json_shipment ext n) json_shipments input))
        else Inr input)
     = and_then (map_result (\<lambda>s. get_shipment ext s n)
                   (array_elements (map_of members ''shipments'')))
         (\<lambda>ps. Inr (input\<lparr>input_shipments := input_shipments input @ ps\<rparr>))"
    by (simp add: read_nonempty_array for_each_add_json_shipment array_elements_not_nonempty)
  show ?thesis
    unfolding add_tasks_def jobs shipments by (simp add: and_then_assoc)
qed

lemma parse_Inr_object:
  "parse ext input (Inr json_input) geometry = Inr input' \<Longrightarrow>
   \<exists>members. json_input = JObject members"
  by (cases json_input) (simp_all add: parse_def has_nonempty_array_def)

lemma parse_InrE:
  assumes "parse ext input (Inr json_input) geometry = Inr input'"
  obtains members json_vehicles n vss js ps where
    "json_input = JObject members"
    and "map_of members ''vehicles'' = Some (JArray json_vehicles)"
    and "json_vehicles \<noteq> []"
    and "check_id (hd json_vehicles) ''vehicle'' = Inr ()"
    and "first_vehicle_amount_size (hd json_vehicles) = Inr n"
    and "map_result (vehicles_of_json_vehicle ext n) json_vehicles = Inr vss"
    and "map_result (\<lambda>j. get_job ext j n) (array_elements (map_of members ''jobs'')) = Inr js"
    and "map_result (\<lambda>s. get_shipment ext s n) (array_elements (map_of members ''shipments''))
         = Inr ps"
    and "input_amount_size input' = n"
    and "input_geometry input' = geometry"
    and "input_vehicles input' = input_vehicles input @ concat vss"
    and "input_jobs input' = input_jobs input @ js"
    and "input_shipments input' = input_shipments input @ ps"
proof -
  from assms obtain members where obj: "json_input = JObject members"
    by (auto dest: parse_Inr_object)
  let ?has_jobs = "is_nonempty_array (map_of members ''jobs'')"
  let ?has_shipments = "is_nonempty_array (map_of members ''shipments'')"
  from assms obj have tasks: "?has_jobs \<or> ?has_shipments"
    using parse_object_cases [of members ext input geometry] by auto
  from assms obj tasks have "is_nonempty_array (map_of members ''vehicles'')"
    using parse_object_cases [of members ext input geometry] by auto
  then obtain first_vehicle more_vehicles where
    vs: "map_of members ''vehicles'' = Some (JArray (first_vehicle # more_vehicles))"
    by (auto simp: is_nonempty_array_def split: option.splits json.splits list.splits)
  let ?json_vehicles = "first_vehicle # more_vehicles"
  from assms obj tasks vs have
    "ingest ext input (JObject members) geometry ?has_jobs ?has_shipments ?json_vehicles
     = Inr input'"
    using parse_object_cases [of members ext input geometry first_vehicle more_vehicles] by auto
  then obtain n vss js ps a b where
    id: "check_id (hd ?json_vehicles) ''vehicle'' = Inr ()"
    and n: "first_vehicle_amount_size (hd ?json_vehicles) = Inr n"
    and vss: "map_result (vehicles_of_json_vehicle ext n) ?json_vehicles = Inr vss"
    and a: "a = append_vehicles (concat vss) (set_geometry geometry (set_amount_size n input))"
    and js: "map_result (\<lambda>j. get_job ext j n) (array_elements (map_of members ''jobs'')) = Inr js"
    and ps: "map_result (\<lambda>s. get_shipment ext s n) (array_elements (map_of members ''shipments''))
             = Inr ps"
    and b: "b = a\<lparr>input_jobs := input_jobs a @ js, input_shipments := input_shipments a @ ps\<rparr>"
    and m: "add_matrices (JObject members) b = Inr input'"
    unfolding ingest_def add_vehicles_and_tasks_def for_each_add_json_vehicle add_tasks_eq
    by (elim and_thenE) auto
  from add_matrices_frame [OF m] have "same_tasks input' b" .
  with a b have
    "input_amount_size input' = n" "input_geometry input' = geometry"
    "input_vehicles input' = input_vehicles input @ concat vss"
    "input_jobs input' = input_jobs input @ js"
    "input_shipments input' = input_shipments input @ ps"
    by (simp_all add: same_tasks_def append_vehicles_def set_geometry_def set_amount_size_def)
  with obj vs id n vss js ps show thesis
    by (intro that [of members ?json_vehicles n vss js ps]) simp_all
qed

section \<open>What the parts of a successful parse have read\<close>

text \<open>
  The location of a task and the jobs of a shipment.
\<close>

lemma map_result_Inr_set:
  "map_result f xs = Inr ys \<Longrightarrow> x \<in> set xs \<Longrightarrow> \<exists>y\<in>set ys. f x = Inr y"
  by (induction xs arbitrary: ys) (auto elim!: and_thenE)


lemma check_id_InrE:
  assumes "check_id v type = Inr u"
  obtains members i where "v = JObject members"
    and "Option.bind (map_of members ''id'') uint64_value = Some i"
  using assms by (auto simp: check_id_def split: json.splits option.splits)





lemma get_shipment_InrE:
  assumes "get_shipment ext s n = Inr pd"
  obtains json_pickup json_delivery amount skills priority where
    "lookup s ''pickup'' = Some json_pickup" and "lookup s ''delivery'' = Some json_delivery"
    and "get_amount s ''amount'' n = Inr amount"
    and "get_skills s = Inr skills"
    and "get_priority s = Inr priority"
    and "get_shipment_task ext json_pickup ''pickup'' PICKUP amount skills priority
         = Inr (fst pd)"
    and "get_shipment_task ext json_delivery ''delivery'' DELIVERY amount skills priority
         = Inr (snd pd)"
proof -
  from assms obtain members where s: "s = JObject members"
    by (cases s) (auto simp: get_shipment_def check_shipment_def)
  from assms obtain amount skills priority json_pickup json_delivery pickup delivery where
    "get_amount s ''amount'' n = Inr amount" "get_skills s = Inr skills"
    "get_priority s = Inr priority"
    "at_key s ''pickup'' = Inr json_pickup"
    "get_shipment_task ext json_pickup ''pickup'' PICKUP amount skills priority = Inr pickup"
    "at_key s ''delivery'' = Inr json_delivery"
    "get_shipment_task ext json_delivery ''delivery'' DELIVERY amount skills priority
     = Inr delivery"
    "pd = (pickup, delivery)"
    unfolding get_shipment_def by (elim and_thenE) auto
  with s show thesis
    by (intro that [of json_pickup json_delivery amount skills priority])
      (auto simp: at_key_def lookup_def split: option.splits)
qed


lemma parse_Inr_lookup:
  assumes "parse ext input (Inr json_input) geometry = Inr input'"
  obtains n vss js ps where
    "map_result (vehicles_of_json_vehicle ext n) (array_elements (lookup json_input ''vehicles''))
     = Inr vss"
    and "array_elements (lookup json_input ''vehicles'') \<noteq> []"
    and "first_vehicle_amount_size (hd (array_elements (lookup json_input ''vehicles''))) = Inr n"
    and "map_result (\<lambda>j. get_job ext j n) (array_elements (lookup json_input ''jobs'')) = Inr js"
    and "map_result (\<lambda>s. get_shipment ext s n) (array_elements (lookup json_input ''shipments''))
         = Inr ps"
    and "input_amount_size input' = n"
    and "input_geometry input' = geometry"
    and "input_vehicles input' = input_vehicles input @ concat vss"
    and "input_jobs input' = input_jobs input @ js"
    and "input_shipments input' = input_shipments input @ ps"
  using assms by (elim parse_InrE) (simp add: lookup_def array_elements_def)


lemma get_shipment_task_Inr:
  assumes "get_shipment_task ext json_task type kind amount skills priority = Inr job"
  shows "task_fields_from ext json_task type job \<and> job_type job = kind
         \<and> job_amount job = amount \<and> job_skills job = skills \<and> job_priority job = priority"
  using assms unfolding get_shipment_task_def task_fields_from_def
  by (elim and_thenE) auto

lemma get_shipment_Inr_fields:
  assumes "get_shipment ext json_shipment amount_size = Inr (pickup, delivery)"
  shows "get_amount json_shipment ''amount'' amount_size = Inr (job_amount pickup)
     \<and> job_amount delivery = job_amount pickup
     \<and> get_skills json_shipment = Inr (job_skills pickup)
     \<and> job_skills delivery = job_skills pickup
     \<and> get_priority json_shipment = Inr (job_priority pickup)
     \<and> job_priority delivery = job_priority pickup
     \<and> job_type pickup = PICKUP \<and> job_type delivery = DELIVERY
     \<and> (\<exists>json_pickup json_delivery.
           lookup json_shipment ''pickup'' = Some json_pickup
           \<and> lookup json_shipment ''delivery'' = Some json_delivery
           \<and> task_fields_from ext json_pickup ''pickup'' pickup
           \<and> task_fields_from ext json_delivery ''delivery'' delivery)"
proof -
  from assms obtain json_pickup json_delivery amount skills priority where
    p: "lookup json_shipment ''pickup'' = Some json_pickup"
    and d: "lookup json_shipment ''delivery'' = Some json_delivery"
    and a: "get_amount json_shipment ''amount'' amount_size = Inr amount"
    and s: "get_skills json_shipment = Inr skills"
    and r: "get_priority json_shipment = Inr priority"
    and tp: "get_shipment_task ext json_pickup ''pickup'' PICKUP amount skills priority
             = Inr pickup"
    and td: "get_shipment_task ext json_delivery ''delivery'' DELIVERY amount skills priority
             = Inr delivery"
    by (elim get_shipment_InrE) simp
  from get_shipment_task_Inr [OF tp] get_shipment_task_Inr [OF td] p d a s r
  show ?thesis
    by auto
qed

lemma parse_Inr_shipments:
  assumes "parse ext input (Inr json_input) geometry = Inr input'"
  shows "\<exists>ps. input_shipments input' = input_shipments input @ ps
           \<and> list_all2 (\<lambda>s pd. get_shipment ext s (input_amount_size input') = Inr pd)
               (array_elements (lookup json_input ''shipments'')) ps"
  using assms by (elim parse_Inr_lookup) (auto simp: map_result_eq_Inr)

section \<open>The matrices\<close>

text \<open>
  \<open>parse\<close> in three phases (main checks, vehicles and tasks, matrices), and how the last
  phase depends on the keys \<^verbatim>\<open>matrix\<close> and \<^verbatim>\<open>matrices\<close> of the document.
\<close>

lemma map_of_replace_matrix_key_other:
  "key \<noteq> ''matrix'' \<Longrightarrow> key \<noteq> ''matrices'' \<Longrightarrow>
   map_of (replace_matrix_key members) key = map_of members key"
  by (induction members) (auto simp: replace_matrix_key_def)

lemma map_of_replace_matrix_key_matrices:
  "map_of members ''matrices'' = None \<Longrightarrow>
   map_of (replace_matrix_key members) ''matrices''
   = map_option matrices_of_matrix (map_of members ''matrix'')"
  by (induction members) (auto simp: replace_matrix_key_def split: if_splits)

lemma add_matrices_single_profile:
  "and_then (add_profile_matrices (profile, JObject [(''durations'', matrix)]) input)
     (for_each add_profile_matrices [])
   = and_then (get_matrix matrix) (\<lambda>mat. Inr (set_durations_matrix profile mat input))"
  by (cases "get_matrix matrix")
    (simp_all add: add_profile_matrices_def set_matrix_if_present_def)

lemma add_matrices_replace_matrix_key:
  assumes "map_of members ''matrices'' = None"
  shows "add_matrices (JObject (replace_matrix_key members)) input
         = add_matrices (JObject members) input"
proof (cases "map_of members ''matrix''")
  case None
  with assms have "map_of (replace_matrix_key members) ''matrices'' = None"
    by (simp add: map_of_replace_matrix_key_matrices)
  moreover from None have "map_of (replace_matrix_key members) ''matrix'' = None"
    by (induction members) (auto simp: replace_matrix_key_def split: if_splits)
  ultimately show ?thesis
    using assms None by (simp add: add_matrices_def)
next
  case (Some matrix)
  with assms have "map_of (replace_matrix_key members) ''matrices''
                   = Some (matrices_of_matrix matrix)"
    by (simp add: map_of_replace_matrix_key_matrices)
  then show ?thesis
    using assms Some
    by (simp add: add_matrices_def matrices_of_matrix_def add_matrices_single_profile)
qed

lemma add_tasks_cong:
  assumes "map_of members' ''jobs'' = map_of members ''jobs''"
    and "map_of members' ''shipments'' = map_of members ''shipments''"
  shows "add_tasks ext n has_jobs has_shipments (JObject members') input
         = add_tasks ext n has_jobs has_shipments (JObject members) input"
  using assms by (simp add: add_tasks_def at_key_def)

lemma add_vehicles_and_tasks_cong:
  assumes "map_of members' ''jobs'' = map_of members ''jobs''"
    and "map_of members' ''shipments'' = map_of members ''shipments''"
  shows "add_vehicles_and_tasks ext input (JObject members') geometry has_jobs has_shipments
           json_vehicles
         = add_vehicles_and_tasks ext input (JObject members) geometry has_jobs has_shipments
             json_vehicles"
  by (simp add: add_vehicles_and_tasks_def add_tasks_cong [OF assms])

lemma parse_phases:
  "parse ext input (Inr (JObject members)) geometry
   = and_then (main_checks members) (\<lambda>json_vehicles.
     and_then (add_vehicles_and_tasks ext input (JObject members) geometry
                 (is_nonempty_array (map_of members ''jobs''))
                 (is_nonempty_array (map_of members ''shipments'')) json_vehicles)
       (add_matrices (JObject members)))"
proof -
  consider (tasks) "\<not> is_nonempty_array (map_of members ''jobs'')"
      "\<not> is_nonempty_array (map_of members ''shipments'')"
    | (vehicles) "is_nonempty_array (map_of members ''jobs'')
        \<or> is_nonempty_array (map_of members ''shipments'')"
      "\<not> is_nonempty_array (map_of members ''vehicles'')"
    | (ok) "is_nonempty_array (map_of members ''jobs'')
        \<or> is_nonempty_array (map_of members ''shipments'')"
      "is_nonempty_array (map_of members ''vehicles'')"
    by blast
  then show ?thesis
  proof cases
    case tasks
    then show ?thesis
      using parse_object_cases [of members ext input geometry] by (simp add: main_checks_def)
  next
    case vehicles
    then show ?thesis
      using parse_object_cases [of members ext input geometry] by (auto simp: main_checks_def)
  next
    case ok
    then obtain first_vehicle more_vehicles where
      "map_of members ''vehicles'' = Some (JArray (first_vehicle # more_vehicles))"
      by (auto simp: is_nonempty_array_def split: option.splits json.splits list.splits)
    with ok show ?thesis
      using parse_object_cases [of members ext input geometry first_vehicle more_vehicles]
      by (auto simp: main_checks_def ingest_def array_elements_def)
  qed
qed

lemma main_checks_cong:
  assumes "map_of members' ''jobs'' = map_of members ''jobs''"
    and "map_of members' ''shipments'' = map_of members ''shipments''"
    and "map_of members' ''vehicles'' = map_of members ''vehicles''"
  shows "main_checks members' = main_checks members"
  using assms by (simp add: main_checks_def)

lemma parse_replace_matrix_key:
  assumes "map_of members ''matrices'' = None"
  shows "parse ext input (Inr (JObject (replace_matrix_key members))) geometry
         = parse ext input (Inr (JObject members)) geometry"
proof -
  have keys: "map_of (replace_matrix_key members) ''jobs'' = map_of members ''jobs''"
    "map_of (replace_matrix_key members) ''shipments'' = map_of members ''shipments''"
    "map_of (replace_matrix_key members) ''vehicles'' = map_of members ''vehicles''"
    by (simp_all add: map_of_replace_matrix_key_other)
  have "add_matrices (JObject (replace_matrix_key members)) = add_matrices (JObject members)"
    by (rule ext) (rule add_matrices_replace_matrix_key [OF assms])
  then show ?thesis
    unfolding parse_phases
    by (simp add: keys main_checks_cong [OF keys]
        add_vehicles_and_tasks_cong [OF keys(1) keys(2)])
qed

lemma add_matrices_without_matrix:
  assumes "map_of members ''matrices'' = None"
  shows "add_matrices (JObject (remove_member ''matrix'' members)) input = Inr input"
  using assms by (simp add: add_matrices_def)

lemma add_matrices_matrix:
  assumes "map_of members ''matrices'' = None" and "map_of members ''matrix'' = Some matrix"
  shows "add_matrices (JObject members) input
         = and_then (get_matrix matrix)
             (\<lambda>mat. Inr (set_durations_matrix DEFAULT_PROFILE mat input))"
  using assms by (simp add: add_matrices_def)

lemma add_matrices_ignores_matrix:
  assumes "map_of members ''matrices'' \<noteq> None"
  shows "add_matrices (JObject (remove_member ''matrix'' members)) input
         = add_matrices (JObject members) input"
  using assms by (auto simp: add_matrices_def)

lemma parse_matrix_effect:
  assumes "map_of members ''matrices'' = None" and "map_of members ''matrix'' = Some matrix"
  shows "parse ext input (Inr (JObject members)) geometry
         = and_then (parse ext input (Inr (JObject (remove_member ''matrix'' members))) geometry)
             (\<lambda>input'. and_then (get_matrix matrix)
                (\<lambda>mat. Inr (set_durations_matrix DEFAULT_PROFILE mat input')))"
proof -
  have keys: "map_of (remove_member ''matrix'' members) ''jobs'' = map_of members ''jobs''"
    "map_of (remove_member ''matrix'' members) ''shipments'' = map_of members ''shipments''"
    "map_of (remove_member ''matrix'' members) ''vehicles'' = map_of members ''vehicles''"
    by simp_all
  have a: "add_matrices (JObject (remove_member ''matrix'' members)) = Inr"
    by (rule ext) (rule add_matrices_without_matrix [OF assms(1)])
  have b: "add_matrices (JObject members)
           = (\<lambda>input'. and_then (get_matrix matrix)
                (\<lambda>mat. Inr (set_durations_matrix DEFAULT_PROFILE mat input')))"
    by (rule ext) (rule add_matrices_matrix [OF assms])
  have c: "and_then m Inr = m" for m :: "error + Input"
    by (cases m) simp_all
  show ?thesis
    unfolding parse_phases a b
    by (simp add: keys main_checks_cong [OF keys]
        add_vehicles_and_tasks_cong [OF keys(1) keys(2)] and_then_assoc c)
qed

lemma parse_matrix_ignored:
  assumes "map_of members ''matrices'' \<noteq> None"
  shows "parse ext input (Inr (JObject (remove_member ''matrix'' members))) geometry
         = parse ext input (Inr (JObject members)) geometry"
proof -
  have keys: "map_of (remove_member ''matrix'' members) ''jobs'' = map_of members ''jobs''"
    "map_of (remove_member ''matrix'' members) ''shipments'' = map_of members ''shipments''"
    "map_of (remove_member ''matrix'' members) ''vehicles'' = map_of members ''vehicles''"
    by simp_all
  have "add_matrices (JObject (remove_member ''matrix'' members))
        = add_matrices (JObject members)"
    by (rule ext) (rule add_matrices_ignores_matrix [OF assms])
  then show ?thesis
    unfolding parse_phases
    by (simp add: keys main_checks_cong [OF keys]
        add_vehicles_and_tasks_cong [OF keys(1) keys(2)])
qed

section \<open>The vehicles of a vehicle object\<close>

lemma length_insert_sorted [simp]: "length (insert_sorted lt x xs) = Suc (length xs)"
  by (induction xs) simp_all

lemma length_sort_by [simp]: "length (sort_by lt xs) = length xs"
  by (induction xs) (simp_all add: sort_by_def)

lemma map_result_length: "map_result f xs = Inr ys \<Longrightarrow> length ys = length xs"
  by (simp add: map_result_eq_Inr list_all2_lengthD)

lemma FindMember_InrE:
  assumes "FindMember v key = Inr m"
  obtains members where "v = JObject members" and "m = map_of members key"
  using assms by (cases v) simp_all

lemma FindMember_lookup: "FindMember v key = Inr m \<Longrightarrow> lookup v key = m"
  by (auto elim!: FindMember_InrE simp: lookup_def)

lemma get_vehicle_other_window:
  assumes "get_vehicle ext json_vehicle n tw = Inr v"
  shows "get_vehicle ext json_vehicle n tw' = Inr (v\<lparr>vehicle_tw := tw'\<rparr>)"
  using assms unfolding get_vehicle_def by (elim and_thenE) auto

lemma get_vehicle_tw:
  assumes "get_vehicle ext json_vehicle n tw = Inr v"
  shows "vehicle_tw v = tw"
  using assms unfolding get_vehicle_def by (elim and_thenE) auto

lemma get_time_windows_length:
  assumes "get_time_windows ext obj = Inr tws" and "lookup obj ''time_windows'' = Some x"
  shows "length tws = length (array_elements (Some x))"
proof -
  from assms(1) obtain m where m: "FindMember obj ''time_windows'' = Inr m"
    unfolding get_time_windows_def by (elim and_thenE)
  with assms(2) have "m = Some x"
    by (simp add: FindMember_lookup)
  with assms(1) m show ?thesis
    by (auto simp: get_time_windows_def array_elements_def id_string_def
        elim!: and_thenE dest!: map_result_length split: json.splits list.splits)
qed

lemma map_result_get_vehicle:
  assumes "map_result (get_vehicle ext json_vehicle n) tws = Inr vs"
  shows "map vehicle_tw vs = tws
         \<and> (\<forall>v\<in>set vs. get_vehicle ext json_vehicle n (vehicle_tw v) = Inr v)"
  using assms
proof (induction tws arbitrary: vs)
  case Nil
  then show ?case by simp
next
  case (Cons tw tws)
  from Cons.prems obtain v vs' where v: "get_vehicle ext json_vehicle n tw = Inr v"
    and vs': "map_result (get_vehicle ext json_vehicle n) tws = Inr vs'"
    and vs: "vs = v # vs'"
    by (auto elim!: and_thenE)
  from get_vehicle_tw [OF v] v Cons.IH [OF vs'] vs show ?case
    by simp
qed

lemma same_vehicle_other_window:
  assumes "get_vehicle ext json_vehicle n (vehicle_tw v) = Inr v"
    and "get_vehicle ext json_vehicle n (vehicle_tw v') = Inr v'"
  shows "v'\<lparr>vehicle_tw := vehicle_tw v\<rparr> = v"
  using get_vehicle_other_window [OF assms(2), of "vehicle_tw v"] assms(1) by simp

lemma vehicles_of_json_vehicle_expands:
  assumes "vehicles_of_json_vehicle ext n json_vehicle = Inr vs"
  shows "expands_to ext n json_vehicle vs"
proof -
  from assms obtain m where m: "FindMember json_vehicle ''time_windows'' = Inr m"
    unfolding vehicles_of_json_vehicle_def by (elim and_thenE)
  then have l: "lookup json_vehicle ''time_windows'' = m"
    by (rule FindMember_lookup)
  show ?thesis
  proof (cases m)
    case None
    with assms m obtain tw v where tw: "get_vehicle_time_window ext json_vehicle = Inr tw"
      and v: "get_vehicle ext json_vehicle n tw = Inr v" and vs: "vs = [v]"
      by (auto simp: vehicles_of_json_vehicle_def elim!: and_thenE)
    from tw obtain w where w: "FindMember json_vehicle ''time_window'' = Inr w"
      unfolding get_vehicle_time_window_def by (elim and_thenE)
    with tw have "case lookup json_vehicle ''time_window'' of
                    None \<Rightarrow> tw = TimeWindow_default ext
                  | Some x \<Rightarrow> get_time_window x = Inr tw"
      by (auto simp: get_vehicle_time_window_def FindMember_lookup split: option.splits)
    with v vs l None get_vehicle_tw [OF v] show ?thesis
      by (auto simp: expands_to_def split: option.splits)
  next
    case (Some x)
    with assms m obtain tws where tws: "get_time_windows ext json_vehicle = Inr tws"
      and vs: "map_result (get_vehicle ext json_vehicle n) tws = Inr vs"
      by (auto simp: vehicles_of_json_vehicle_def elim!: and_thenE)
    from map_result_get_vehicle [OF vs] have tw: "map vehicle_tw vs = tws"
      and each: "\<forall>v\<in>set vs. get_vehicle ext json_vehicle n (vehicle_tw v) = Inr v"
      by simp_all
    from l Some have lx: "lookup json_vehicle ''time_windows'' = Some x"
      by simp
    have "length vs = length (array_elements (Some x))"
      using map_result_length [OF vs] get_time_windows_length [OF tws lx] by simp
    moreover have "\<forall>v\<in>set vs. \<forall>v'\<in>set vs. v'\<lparr>vehicle_tw := vehicle_tw v\<rparr> = v"
      using each by (blast intro: same_vehicle_other_window)
    ultimately show ?thesis
      using tws tw each lx by (simp add: expands_to_def)
  qed
qed

lemma parse_Inr_vehicles:
  assumes "parse ext input (Inr json_input) geometry = Inr input'"
  shows "\<exists>vss. input_vehicles input' = input_vehicles input @ concat vss
           \<and> list_all2 (expands_to ext (input_amount_size input'))
               (array_elements (lookup json_input ''vehicles'')) vss"
proof -
  from assms obtain n vss where
    vss: "map_result (vehicles_of_json_vehicle ext n)
            (array_elements (lookup json_input ''vehicles'')) = Inr vss"
    and n: "input_amount_size input' = n"
    and v: "input_vehicles input' = input_vehicles input @ concat vss"
    by (elim parse_Inr_lookup)
  from vss have "list_all2 (\<lambda>jv vs. vehicles_of_json_vehicle ext n jv = Inr vs)
                   (array_elements (lookup json_input ''vehicles'')) vss"
    by (simp add: map_result_eq_Inr)
  then have "list_all2 (expands_to ext n) (array_elements (lookup json_input ''vehicles'')) vss"
    by (rule list_all2_mono) (rule vehicles_of_json_vehicle_expands)
  with n v show ?thesis
    by blast
qed

section \<open>Amounts and time windows that a successful parse has read\<close>

lemma get_amount_mismatch:
  assumes "FindMember object key = Inr (Some (JArray xs))" and "length xs \<noteq> n"
  shows "get_amount object key n
         = Inl (InputException
                  (''Inconsistent '' @ key @ '' length: '' @ to_string (length xs)
                   @ '' and '' @ to_string n @ ''.''))"
  using assms by (simp add: get_amount_def)

lemma get_amount_default:
  assumes "FindMember object key = Inr None"
  shows "get_amount object key n = Inr (replicate n 0)"
  using assms by (simp add: get_amount_def)

lemma get_amount_Inr_fits:
  assumes "get_amount object key n = Inr a"
  shows "amount_fits n object key"
proof -
  from assms obtain m where m: "FindMember object key = Inr m"
    unfolding get_amount_def by (elim and_thenE)
  with assms show ?thesis
    by (auto simp: get_amount_def amount_fits_def FindMember_lookup
        split: option.splits json.splits if_splits)
qed

lemma get_time_window_Inr:
  assumes "get_time_window tw = Inr w"
  shows "\<not> start_exceeds_end tw"
  using assms
  by (auto simp: get_time_window_def start_exceeds_end_def TimeWindow_ctor_def
      split: json.splits list.splits option.splits if_splits)

lemma get_time_window_malformed:
  assumes "start_exceeds_end tw"
  shows "get_time_window tw = Inl (InputException ''Invalid time window.'')"
  using assms
  by (auto simp: get_time_window_def start_exceeds_end_def TimeWindow_ctor_def
      split: json.splits list.splits option.splits if_splits)

lemma get_time_windows_Inr_windows:
  assumes "get_time_windows ext obj = Inr tws"
  shows "\<forall>tw\<in>set (windows_of obj). \<not> start_exceeds_end tw"
proof -
  from assms obtain m where m: "FindMember obj ''time_windows'' = Inr m"
    unfolding get_time_windows_def by (elim and_thenE)
  then have l: "lookup obj ''time_windows'' = m"
    by (rule FindMember_lookup)
  show ?thesis
  proof (cases "is_nonempty_array m")
    case True
    then obtain x xs where x: "m = Some (JArray (x # xs))"
      by (auto simp: is_nonempty_array_def split: option.splits json.splits list.splits)
    with assms m obtain ws where "map_result get_time_window (x # xs) = Inr ws"
      unfolding get_time_windows_def by (auto elim!: and_thenE)
    then have "\<forall>tw\<in>set (x # xs). \<not> start_exceeds_end tw"
      by (blast dest: map_result_Inr_set get_time_window_Inr)
    with l x show ?thesis
      by (simp add: windows_of_def array_elements_def)
  next
    case False
    then have "array_elements m = []"
      by (rule array_elements_not_nonempty)
    with l show ?thesis
      by (simp add: windows_of_def)
  qed
qed

lemma get_time_windows_nonempty:
  assumes "get_time_windows ext obj = Inr tws"
  shows "tws \<noteq> []"
proof -
  from assms obtain m where m: "FindMember obj ''time_windows'' = Inr m"
    unfolding get_time_windows_def by (elim and_thenE)
  show ?thesis
  proof (cases "is_nonempty_array m")
    case True
    then obtain x xs where x: "m = Some (JArray (x # xs))"
      by (auto simp: is_nonempty_array_def split: option.splits json.splits list.splits)
    with assms m obtain ws where ws: "map_result get_time_window (x # xs) = Inr ws"
      and tws: "tws = sort_by tw_less ws"
      unfolding get_time_windows_def by (auto elim!: and_thenE)
    from map_result_length [OF ws] tws have "length tws = Suc (length xs)"
      by simp
    then show ?thesis
      by auto
  next
    case False
    with assms m show ?thesis
      by (auto simp: get_time_windows_def is_nonempty_array_def elim!: and_thenE
          split: option.splits json.splits list.splits)
  qed
qed

lemma get_break_Inr:
  assumes "get_break ext b n = Inr br"
  shows "amount_fits n b ''max_load'' \<and> (\<exists>tws. get_time_windows ext b = Inr tws)"
proof -
  from assms obtain m max_load tws where m: "FindMember b ''max_load'' = Inr m"
    and a: "(case m of None \<Rightarrow> Inr None
             | Some _ \<Rightarrow> and_then (get_amount b ''max_load'' n) (\<lambda>a. Inr (Some a)))
            = Inr max_load"
    and t: "get_time_windows ext b = Inr tws"
    unfolding get_break_def by (elim and_thenE)
  have "amount_fits n b ''max_load''"
  proof (cases m)
    case None
    with m show ?thesis
      by (simp add: amount_fits_def FindMember_lookup)
  next
    case (Some x)
    with a show ?thesis
      by (auto elim!: and_thenE dest: get_amount_Inr_fits)
  qed
  with t show ?thesis
    by blast
qed

lemma get_vehicle_breaks_Inr:
  assumes "get_vehicle_breaks ext v n = Inr brs"
  shows "\<forall>b\<in>set (array_elements (lookup v ''breaks'')). \<exists>br. get_break ext b n = Inr br"
proof -
  from assms obtain m where m: "FindMember v ''breaks'' = Inr m"
    unfolding get_vehicle_breaks_def by (elim and_thenE)
  then have l: "lookup v ''breaks'' = m"
    by (rule FindMember_lookup)
  show ?thesis
  proof (cases "\<exists>bs. m = Some (JArray bs)")
    case True
    then obtain bs where bs: "m = Some (JArray bs)"
      by blast
    with assms m obtain rs where "map_result (\<lambda>b. get_break ext b n) bs = Inr rs"
      unfolding get_vehicle_breaks_def by (auto elim!: and_thenE)
    then have "\<forall>b\<in>set bs. \<exists>br. get_break ext b n = Inr br"
      by (blast dest: map_result_Inr_set)
    with l bs show ?thesis
      by (simp add: array_elements_def)
  next
    case False
    then have "array_elements m = []"
      by (auto simp: array_elements_def split: option.splits json.splits)
    with l show ?thesis
      by simp
  qed
qed

lemma get_vehicle_Inr:
  assumes "get_vehicle ext json_vehicle n tw = Inr v"
  shows "amount_fits n json_vehicle ''capacity''
         \<and> (\<forall>b\<in>set (array_elements (lookup json_vehicle ''breaks'')).
              amount_fits n b ''max_load''
              \<and> (\<forall>tw\<in>set (windows_of b). \<not> start_exceeds_end tw))"
proof -
  from assms obtain a brs where "get_amount json_vehicle ''capacity'' n = Inr a"
    and "get_vehicle_breaks ext json_vehicle n = Inr brs"
    unfolding get_vehicle_def by (elim and_thenE)
  then show ?thesis
    by (blast dest: get_amount_Inr_fits get_vehicle_breaks_Inr get_break_Inr
        get_time_windows_Inr_windows)
qed

lemma expands_to_get_vehicle:
  assumes "expands_to ext n json_vehicle vs" and "vs \<noteq> []"
  shows "\<exists>tw v. get_vehicle ext json_vehicle n tw = Inr v"
proof -
  from assms(2) obtain v where "v \<in> set vs"
    by (cases vs) auto
  with assms(1) have "get_vehicle ext json_vehicle n (vehicle_tw v) = Inr v"
    by (auto simp: expands_to_def split: option.splits)
  then show ?thesis
    by blast
qed

lemma vehicles_of_json_vehicle_nonempty:
  assumes "vehicles_of_json_vehicle ext n json_vehicle = Inr vs"
  shows "vs \<noteq> []"
proof -
  have "length vs \<noteq> 0"
    using assms
    by (auto simp: vehicles_of_json_vehicle_def elim!: and_thenE
        dest!: map_result_length get_time_windows_nonempty split: option.splits)
  then show ?thesis
    by simp
qed

lemma expands_to_windows:
  assumes "expands_to ext n json_vehicle vs"
  shows "case lookup json_vehicle ''time_windows'' of
           Some _ \<Rightarrow> (\<forall>tw\<in>set (windows_of json_vehicle). \<not> start_exceeds_end tw)
         | None \<Rightarrow>
             (case lookup json_vehicle ''time_window'' of
                Some tw \<Rightarrow> \<not> start_exceeds_end tw
              | None \<Rightarrow> True)"
  using assms
  by (auto simp: expands_to_def split: option.splits
      dest: get_time_windows_Inr_windows get_time_window_Inr)

lemma get_job_Inr:
  assumes "get_job ext j n = Inr job"
  shows "amount_fits n j ''delivery'' \<and> amount_fits n j ''pickup''
         \<and> (lookup j ''delivery'' = None \<and> lookup j ''pickup'' = None
              \<longrightarrow> amount_fits n j ''amount'')
         \<and> (\<forall>tw\<in>set (windows_of j). \<not> start_exceeds_end tw)"
proof -
  from assms obtain u where "check_id j ''job'' = Inr u"
    unfolding get_job_def by (elim and_thenE)
  then obtain members where j: "j = JObject members"
    by (elim check_id_InrE)
  let ?compat = "map_of members ''amount'' \<noteq> None \<and> map_of members ''delivery'' = None
                 \<and> map_of members ''pickup'' = None"
  from assms j have "get_job ext (JObject members) n = Inr job"
    by simp
  then obtain d p tws where
    d: "(if ?compat then get_amount (JObject members) ''amount'' n
         else get_amount (JObject members) ''delivery'' n) = Inr d"
    and p: "get_amount (JObject members) ''pickup'' n = Inr p"
    and t: "get_time_windows ext (JObject members) = Inr tws"
    unfolding get_job_def need_amount_compat_object by (elim and_thenE) auto
  have "amount_fits n j ''delivery''
        \<and> (lookup j ''delivery'' = None \<and> lookup j ''pickup'' = None
             \<longrightarrow> amount_fits n j ''amount'')"
  proof (cases ?compat)
    case True
    with d j have "amount_fits n j ''amount''"
      by (auto dest: get_amount_Inr_fits)
    moreover from True j have "amount_fits n j ''delivery''"
      by (simp add: amount_fits_def lookup_def)
    ultimately show ?thesis
      by simp
  next
    case False
    with d j have "amount_fits n j ''delivery''"
      by (auto dest: get_amount_Inr_fits)
    moreover from False j have
      "lookup j ''delivery'' = None \<and> lookup j ''pickup'' = None \<longrightarrow> amount_fits n j ''amount''"
      by (auto simp: amount_fits_def lookup_def)
    ultimately show ?thesis
      by simp
  qed
  with p t j show ?thesis
    by (blast dest: get_amount_Inr_fits get_time_windows_Inr_windows)
qed

lemma get_shipment_Inr:
  assumes "get_shipment ext s n = Inr pd"
  shows "amount_fits n s ''amount''
         \<and> (\<forall>key\<in>{''pickup'', ''delivery''}. \<forall>task. lookup s key = Some task
              \<longrightarrow> (\<forall>tw\<in>set (windows_of task). \<not> start_exceeds_end tw))"
proof -
  from assms obtain json_pickup json_delivery amount skills priority where
    p: "lookup s ''pickup'' = Some json_pickup"
    and d: "lookup s ''delivery'' = Some json_delivery"
    and a: "get_amount s ''amount'' n = Inr amount"
    and tp: "get_shipment_task ext json_pickup ''pickup'' PICKUP amount skills priority
             = Inr (fst pd)"
    and td: "get_shipment_task ext json_delivery ''delivery'' DELIVERY amount skills priority
             = Inr (snd pd)"
    by (elim get_shipment_InrE)
  from get_shipment_task_Inr [OF tp] get_shipment_task_Inr [OF td]
  have "get_time_windows ext json_pickup = Inr (job_tws (fst pd))"
    and "get_time_windows ext json_delivery = Inr (job_tws (snd pd))"
    by (simp_all add: task_fields_from_def)
  then have "\<forall>tw\<in>set (windows_of json_pickup). \<not> start_exceeds_end tw"
    and "\<forall>tw\<in>set (windows_of json_delivery). \<not> start_exceeds_end tw"
    by (blast dest: get_time_windows_Inr_windows)+
  with p d a show ?thesis
    by (auto dest: get_amount_Inr_fits)
qed

lemma first_vehicle_amount_size_Inr:
  assumes "first_vehicle_amount_size v = Inr n"
  shows "n = length (array_elements (lookup v ''capacity''))"
proof -
  from assms obtain m where m: "FindMember v ''capacity'' = Inr m"
    unfolding first_vehicle_amount_size_def by (elim and_thenE)
  with assms show ?thesis
    by (auto simp: first_vehicle_amount_size_def array_elements_def FindMember_lookup
        split: option.splits json.splits)
qed

lemma parse_Inr_read:
  assumes "parse ext input (Inr json_input) geometry = Inr input'"
  shows "input_amount_size input'
         = length (array_elements
                     (lookup (hd (array_elements (lookup json_input ''vehicles''))) ''capacity''))
         \<and> amounts_fit (input_amount_size input') json_input
         \<and> windows_well_formed json_input"
proof -
  let ?vehicles = "array_elements (lookup json_input ''vehicles'')"
  from assms obtain n vss js ps where
    vss: "map_result (vehicles_of_json_vehicle ext n) ?vehicles = Inr vss"
    and first: "first_vehicle_amount_size (hd ?vehicles) = Inr n"
    and js: "map_result (\<lambda>j. get_job ext j n) (array_elements (lookup json_input ''jobs''))
             = Inr js"
    and ps: "map_result (\<lambda>s. get_shipment ext s n)
               (array_elements (lookup json_input ''shipments'')) = Inr ps"
    and n: "input_amount_size input' = n"
    by (elim parse_Inr_lookup)
  have vehicles: "amount_fits n v ''capacity''
        \<and> (\<forall>b\<in>set (array_elements (lookup v ''breaks'')).
             amount_fits n b ''max_load'' \<and> (\<forall>tw\<in>set (windows_of b). \<not> start_exceeds_end tw))
        \<and> (case lookup v ''time_windows'' of
             Some _ \<Rightarrow> (\<forall>tw\<in>set (windows_of v). \<not> start_exceeds_end tw)
           | None \<Rightarrow>
               (case lookup v ''time_window'' of
                  Some tw \<Rightarrow> \<not> start_exceeds_end tw
                | None \<Rightarrow> True))"
    if "v \<in> set ?vehicles" for v
  proof -
    from map_result_Inr_set [OF vss that] obtain vs where
      vs: "vehicles_of_json_vehicle ext n v = Inr vs"
      by blast
    then have e: "expands_to ext n v vs"
      by (rule vehicles_of_json_vehicle_expands)
    from expands_to_get_vehicle [OF e vehicles_of_json_vehicle_nonempty [OF vs]]
    obtain tw x where "get_vehicle ext v n tw = Inr x"
      by blast
    from get_vehicle_Inr [OF this] expands_to_windows [OF e] show ?thesis
      by blast
  qed
  have jobs: "amount_fits n j ''delivery'' \<and> amount_fits n j ''pickup''
         \<and> (lookup j ''delivery'' = None \<and> lookup j ''pickup'' = None
              \<longrightarrow> amount_fits n j ''amount'')
         \<and> (\<forall>tw\<in>set (windows_of j). \<not> start_exceeds_end tw)"
    if "j \<in> set (array_elements (lookup json_input ''jobs''))" for j
    using map_result_Inr_set [OF js that] by (blast dest: get_job_Inr)
  have shipments: "amount_fits n s ''amount''
         \<and> (\<forall>key\<in>{''pickup'', ''delivery''}. \<forall>task. lookup s key = Some task
              \<longrightarrow> (\<forall>tw\<in>set (windows_of task). \<not> start_exceeds_end tw))"
    if "s \<in> set (array_elements (lookup json_input ''shipments''))" for s
    using map_result_Inr_set [OF ps that] by (blast dest: get_shipment_Inr)
  have "amounts_fit n json_input"
    unfolding amounts_fit_def using vehicles jobs shipments by blast
  moreover have "windows_well_formed json_input"
    unfolding windows_well_formed_def using vehicles jobs shipments by blast
  ultimately show ?thesis
    using n first_vehicle_amount_size_Inr [OF first] by simp
qed

section \<open>Evaluating the parser on concrete documents\<close>

lemmas parser_defs =
  at_key_def id_string_def GetUint64_def GetArray_def
  parse_coordinates_def get_string_def get_optional_string_def
  get_double_def get_amount_def get_skills_def get_duration_def get_duration_map_def
  get_priority_def get_value_for_def check_id_def check_shipment_def check_location_def
  get_time_window_def get_vehicle_time_window_def TimeWindow_ctor_def
  get_time_windows_def get_break_def get_vehicle_breaks_def get_cost_entry_def
  get_vehicle_costs_def get_forced_def get_vehicle_step_def get_vehicle_steps_def
  get_vehicle_endpoint_def get_vehicle_def get_task_location_def need_amount_compat_def
  get_job_def matrix_line_def get_matrix_def add_json_vehicle_def add_json_job_def
  get_shipment_task_def get_shipment_def add_json_shipment_def set_matrix_if_present_def
  add_profile_matrices_def add_matrices_def has_nonempty_array_def
  first_vehicle_amount_size_def add_tasks_def add_vehicles_and_tasks_def ingest_def
  parse_def
  set_amount_size_def set_geometry_def add_vehicle_def add_job_def add_shipment_def
  set_durations_matrix_def set_distances_matrix_def set_costs_matrix_def
  sort_by_def tw_less_def break_less_def word_sless_alt
  scale_from_user_duration_def DURATION_FACTOR_def
  DEFAULT_PROFILE_def DEFAULT_COST_PER_HOUR_def DEFAULT_COST_PER_KM_def
  example_externals_def empty_input_def JUint_def

lemma parse_example_document:
  "parse example_externals empty_input (Inr example_document) False = Inr example_result"
  by (simp add: parser_defs example_document_def example_members_def example_vehicles_def example_jobs_def
      example_shipments_def example_shipment_def example_pickup_job_def
      example_delivery_job_def example_result_def example_vehicle_1_def example_vehicle_2_def)

lemmas small_defs =
  matrix_and_matrices_members_def small_vehicle_object_def small_job_object_def
  small_vehicle_def small_job_def small_result_def

lemma parse_matrix_and_matrices:
  "parse example_externals empty_input (Inr (JObject matrix_and_matrices_members)) False
   = Inr small_result"
  by (simp add: parser_defs small_defs)

lemma parse_matrix_and_matrices_replaced:
  "parse example_externals empty_input
     (Inr (JObject (replace_matrix_key matrix_and_matrices_members))) False
   = Inr (set_durations_matrix ''car'' [[0]] small_result)"
  by (simp add: parser_defs small_defs replace_matrix_key_def matrices_of_matrix_def)

lemma parse_ignored_amount:
  "parse example_externals empty_input (Inr (JObject ignored_amount_members)) False
   = Inr ignored_amount_result"
  by (simp add: parser_defs small_defs ignored_amount_members_def
      ignored_amount_job_object_def ignored_amount_result_def)

lemma parse_ignored_window:
  "parse example_externals empty_input (Inr (JObject ignored_window_members)) False
   = Inr ignored_window_result"
  by (simp add: parser_defs small_defs ignored_window_members_def
      ignored_window_vehicle_object_def ignored_window_result_def)


section \<open>The main checks of parse\<close>

text \<open>
  Claim C6. For a document that is a JSON object: when neither \<^verbatim>\<open>jobs\<close> nor \<^verbatim>\<open>shipments\<close> is
  a nonempty array, \<open>parse\<close> throws the InputException \<^verbatim>\<open>Invalid jobs or shipments.\<close>; when
  one of them is, but \<^verbatim>\<open>vehicles\<close> is missing, not an array or empty, \<open>parse\<close> throws the
  InputException \<^verbatim>\<open>Invalid vehicles.\<close>; when both checks pass, the result of \<open>parse\<close> is
  the result of the remaining steps (\<open>ingest\<close>), whatever that is. So \<open>parse\<close> throws an
  InputException whenever \<^verbatim>\<open>vehicles\<close> is missing, not an array or empty.
\<close>

theorem parse_main_checks:
  "(\<not> is_nonempty_array (map_of members ''jobs'')
      \<and> \<not> is_nonempty_array (map_of members ''shipments'')
    \<longrightarrow> parse ext input (Inr (JObject members)) geometry
          = Inl (InputException ''Invalid jobs or shipments.''))
   \<and> ((is_nonempty_array (map_of members ''jobs'')
        \<or> is_nonempty_array (map_of members ''shipments''))
       \<and> \<not> is_nonempty_array (map_of members ''vehicles'')
    \<longrightarrow> parse ext input (Inr (JObject members)) geometry
          = Inl (InputException ''Invalid vehicles.''))
   \<and> ((is_nonempty_array (map_of members ''jobs'')
        \<or> is_nonempty_array (map_of members ''shipments''))
       \<and> map_of members ''vehicles'' = Some (JArray (first_vehicle # more_vehicles))
    \<longrightarrow> parse ext input (Inr (JObject members)) geometry
          = ingest ext input (JObject members) geometry
              (is_nonempty_array (map_of members ''jobs''))
              (is_nonempty_array (map_of members ''shipments''))
              (first_vehicle # more_vehicles))
   \<and> (\<not> is_nonempty_array (map_of members ''vehicles'')
    \<longrightarrow> (\<exists>message. parse ext input (Inr (JObject members)) geometry
                     = Inl (InputException message)))"
  using parse_object_cases [of members ext input geometry first_vehicle more_vehicles]
  by blast

theorem parse_main_checks_witness:
  "parse example_externals empty_input (Inr (JObject [])) False
   = Inl (InputException ''Invalid jobs or shipments.'')
   \<and> parse example_externals empty_input
         (Inr (JObject [(''jobs'', JArray [JNull]), (''vehicles'', JArray [])])) False
       = Inl (InputException ''Invalid vehicles.'')
   \<and> parse example_externals empty_input
         (Inr (JObject [(''shipments'', JArray [JNull]), (''vehicles'', JArray [JNull])])) True
       = ingest example_externals empty_input
           (JObject [(''shipments'', JArray [JNull]), (''vehicles'', JArray [JNull])]) True
           False True [JNull]"
  using parse_main_checks [where members = "[]" and ext = example_externals
      and input = empty_input and geometry = False]
    parse_main_checks [where members = "[(''jobs'', JArray [JNull]), (''vehicles'', JArray [])]"
      and ext = example_externals and input = empty_input and geometry = False]
    parse_main_checks [where
      members = "[(''shipments'', JArray [JNull]), (''vehicles'', JArray [JNull])]"
      and first_vehicle = JNull and more_vehicles = "[]"
      and ext = example_externals and input = empty_input and geometry = True]
  by (simp add: is_nonempty_array_def)

section \<open>The deprecated amount key of a job\<close>

text \<open>
  Claim C1. Whenever \<open>get_job\<close> returns a job for a job object: if the object has an
  \<^verbatim>\<open>amount\<close> key and neither a \<^verbatim>\<open>delivery\<close> nor a \<^verbatim>\<open>pickup\<close> key, the delivery amount of the
  job is what \<open>get_amount\<close> reads under \<^verbatim>\<open>amount\<close>; in every other case it is what \<open>get_amount\<close>
  reads under \<^verbatim>\<open>delivery\<close>, which is the zero vector when that key is absent, and the
  \<^verbatim>\<open>amount\<close> key is ignored: the object without it gives the same job.
\<close>

theorem get_job_amount_compat:
  assumes "get_job ext (JObject members) amount_size = Inr job"
  shows "if map_of members ''amount'' \<noteq> None \<and> map_of members ''delivery'' = None
            \<and> map_of members ''pickup'' = None
         then get_amount (JObject members) ''amount'' amount_size = Inr (job_delivery job)
         else get_amount (JObject members) ''delivery'' amount_size = Inr (job_delivery job)
              \<and> (map_of members ''delivery'' = None
                   \<longrightarrow> job_delivery job = replicate amount_size 0)
              \<and> get_job ext (JObject (remove_member ''amount'' members)) amount_size = Inr job"
proof (cases "map_of members ''amount'' \<noteq> None \<and> map_of members ''delivery'' = None
            \<and> map_of members ''pickup'' = None")
  case True
  then have "need_amount_compat (JObject members) = Inr True"
    by (simp add: need_amount_compat_object)
  with assms have "get_amount (JObject members) ''amount'' amount_size = Inr (job_delivery job)"
    unfolding get_job_def by (elim and_thenE) auto
  then show ?thesis
    by (subst if_P [OF True])
next
  case False
  then have "need_amount_compat (JObject members) = Inr False"
    by (simp add: need_amount_compat_object)
  with assms have d: "get_amount (JObject members) ''delivery'' amount_size = Inr (job_delivery job)"
    unfolding get_job_def by (elim and_thenE) auto
  then have "map_of members ''delivery'' = None \<longrightarrow> job_delivery job = replicate amount_size 0"
    by (auto simp: get_amount_absent)
  with d assms show ?thesis
    by (subst if_not_P [OF False]) (simp add: get_job_without_amount [OF False])
qed

text \<open>
  Two jobs read with amount size 1: one with only the deprecated key, one with a
  \<^verbatim>\<open>delivery\<close> key next to an \<^verbatim>\<open>amount\<close> key (of another length, which goes unnoticed).
\<close>

theorem get_job_amount_compat_witness:
  "get_job example_externals
     (JObject [(''id'', JUint 7), (''location'', JArray [JUint 2, JUint 3]),
               (''amount'', JArray [JUint 5])]) 1
   = Inr (Job 7 (Location_coords \<lparr>lon = Integer 2, lat = Integer 3\<rparr>) 0 0 Map.empty
            [5] [0] {} 0 [TimeWindow_default example_externals] '''')
   \<and> get_amount
         (JObject [(''id'', JUint 7), (''location'', JArray [JUint 2, JUint 3]),
                   (''amount'', JArray [JUint 5])]) ''amount'' 1
       = Inr [5]
   \<and> get_job example_externals
         (JObject [(''id'', JUint 8), (''location_index'', JUint 1),
                   (''amount'', JArray [JUint 9, JUint 9]), (''delivery'', JArray [JUint 4])]) 1
       = Inr (Job 8 (Location_index 1) 0 0 Map.empty
                [4] [0] {} 0 [TimeWindow_default example_externals] '''')
   \<and> get_amount
         (JObject [(''id'', JUint 8), (''location_index'', JUint 1),
                   (''amount'', JArray [JUint 9, JUint 9]), (''delivery'', JArray [JUint 4])])
         ''delivery'' 1
       = Inr [4]
   \<and> get_job example_externals
         (JObject (remove_member ''amount''
            [(''id'', JUint 8), (''location_index'', JUint 1),
             (''amount'', JArray [JUint 9, JUint 9]), (''delivery'', JArray [JUint 4])])) 1
       = Inr (Job 8 (Location_index 1) 0 0 Map.empty
                [4] [0] {} 0 [TimeWindow_default example_externals] '''')"
proof -
  have a: "get_job example_externals
     (JObject [(''id'', JUint 7), (''location'', JArray [JUint 2, JUint 3]),
               (''amount'', JArray [JUint 5])]) 1
   = Inr (Job 7 (Location_coords \<lparr>lon = Integer 2, lat = Integer 3\<rparr>) 0 0 Map.empty
            [5] [0] {} 0 [TimeWindow_default example_externals] '''')"
    by (simp add: parser_defs)
  have b: "get_job example_externals
         (JObject [(''id'', JUint 8), (''location_index'', JUint 1),
                   (''amount'', JArray [JUint 9, JUint 9]), (''delivery'', JArray [JUint 4])]) 1
       = Inr (Job 8 (Location_index 1) 0 0 Map.empty
                [4] [0] {} 0 [TimeWindow_default example_externals] '''')"
    by (simp add: parser_defs)
  show ?thesis
    using a b get_job_amount_compat [OF a] get_job_amount_compat [OF b] by simp
qed

section \<open>The location of a task\<close>




section \<open>The two jobs of a shipment\<close>

text \<open>
  Claim C7. Whenever the pickup and the delivery job of a shipment object are built, both
  carry the amount, the skills and the priority that \<open>get_amount\<close>, \<open>get_skills\<close> and
  \<open>get_priority\<close> read from the shipment object itself, so the two jobs agree on them; the
  pickup job has type PICKUP and the delivery job type DELIVERY; id, location, setup,
  service, time windows and description of each job are read from its own sub-object.
  The shipments that a successful \<open>parse\<close> adds are exactly these pairs, one per shipment
  object and in order.
\<close>

theorem shipment_shared_fields:
  "(get_shipment ext json_shipment amount_size = Inr (pickup, delivery)
    \<longrightarrow> get_amount json_shipment ''amount'' amount_size = Inr (job_amount pickup)
        \<and> job_amount delivery = job_amount pickup
        \<and> get_skills json_shipment = Inr (job_skills pickup)
        \<and> job_skills delivery = job_skills pickup
        \<and> get_priority json_shipment = Inr (job_priority pickup)
        \<and> job_priority delivery = job_priority pickup
        \<and> job_type pickup = PICKUP \<and> job_type delivery = DELIVERY
        \<and> (\<exists>json_pickup json_delivery.
              lookup json_shipment ''pickup'' = Some json_pickup
              \<and> lookup json_shipment ''delivery'' = Some json_delivery
              \<and> task_fields_from ext json_pickup ''pickup'' pickup
              \<and> task_fields_from ext json_delivery ''delivery'' delivery))
   \<and> (parse ext input (Inr json_input) geometry = Inr input'
    \<longrightarrow> (\<exists>ps. input_shipments input' = input_shipments input @ ps
           \<and> list_all2 (\<lambda>s pd. get_shipment ext s (input_amount_size input') = Inr pd)
               (array_elements (lookup json_input ''shipments'')) ps))"
  using get_shipment_Inr_fields [of ext json_shipment amount_size pickup delivery]
    parse_Inr_shipments [of ext input json_input geometry input']
  by blast

theorem shipment_shared_fields_witness:
  "get_shipment example_externals example_shipment 1
   = Inr (example_pickup_job, example_delivery_job)
   \<and> get_amount example_shipment ''amount'' 1 = Inr [2]
   \<and> job_amount example_pickup_job = [2] \<and> job_amount example_delivery_job = [2]
   \<and> get_skills example_shipment = Inr {3}
   \<and> job_skills example_pickup_job = {3} \<and> job_skills example_delivery_job = {3}
   \<and> get_priority example_shipment = Inr 10
   \<and> job_priority example_pickup_job = 10 \<and> job_priority example_delivery_job = 10
   \<and> job_id example_pickup_job = 9 \<and> job_id example_delivery_job = 10
   \<and> parse example_externals empty_input (Inr example_document) False = Inr example_result
   \<and> input_shipments example_result = [(example_pickup_job, example_delivery_job)]"
proof -
  have a: "get_shipment example_externals example_shipment 1
           = Inr (example_pickup_job, example_delivery_job)"
    by (simp add: parser_defs example_shipment_def example_pickup_job_def
        example_delivery_job_def)
  show ?thesis
    using a parse_example_document
      shipment_shared_fields [where ext = example_externals
        and json_shipment = example_shipment and amount_size = 1
        and pickup = example_pickup_job and delivery = example_delivery_job
        and json_input = example_document and input = empty_input and geometry = False
        and input' = example_result]
    by (simp add: example_pickup_job_def example_delivery_job_def example_result_def)
qed

section \<open>The deprecated matrix key\<close>

text \<open>
  Claim C5 as stated fails: a document may hold both keys, and then the \<^verbatim>\<open>matrix\<close> key is
  not read at all. The document below has a \<^verbatim>\<open>matrix\<close> key holding the square matrix
  \<^verbatim>\<open>[[0]]\<close>; it is parsed to an input without any durations matrix, whereas the document
  with that key replaced by \<^verbatim>\<open>matrices: {"car": {"durations": [[0]]}}\<close> is parsed to an input
  whose durations matrix for \<^verbatim>\<open>car\<close> is \<^verbatim>\<open>[[0]]\<close>.
\<close>

theorem deprecated_matrix_key_counterexample:
  "map_of matrix_and_matrices_members ''matrix'' = Some (JArray [JArray [JUint 0]])
   \<and> get_matrix (JArray [JArray [JUint 0]]) = Inr [[0]]
   \<and> parse example_externals empty_input (Inr (JObject matrix_and_matrices_members)) False
       = Inr small_result
   \<and> durations_matrices small_result ''car'' = None
   \<and> parse example_externals empty_input
         (Inr (JObject (replace_matrix_key matrix_and_matrices_members))) False
       = Inr (set_durations_matrix ''car'' [[0]] small_result)
   \<and> parse example_externals empty_input (Inr (JObject matrix_and_matrices_members)) False
       \<noteq> parse example_externals empty_input
           (Inr (JObject (replace_matrix_key matrix_and_matrices_members))) False"
proof -
  have "small_result \<noteq> set_durations_matrix ''car'' [[0]] small_result"
  proof
    assume "small_result = set_durations_matrix ''car'' [[0]] small_result"
    then have "durations_matrices small_result ''car''
               = durations_matrices (set_durations_matrix ''car'' [[0]] small_result) ''car''"
      by simp
    then show False
      by (simp add: small_result_def set_durations_matrix_def)
  qed
  then show ?thesis
    by (simp add: parse_matrix_and_matrices parse_matrix_and_matrices_replaced)
      (simp add: matrix_and_matrices_members_def small_result_def get_matrix_def
        matrix_line_def JUint_def)
qed

text \<open>
  Claim C5, amended. For a document (a JSON object) with a top-level \<^verbatim>\<open>matrix\<close> key holding
  \<open>M\<close> and no top-level \<^verbatim>\<open>matrices\<close> key, \<open>parse\<close> gives the same result, input or
  exception, as for the document with that key replaced by
  \<^verbatim>\<open>matrices: {"car": {"durations": M}}\<close>; and that result is the one for the document
  without the \<^verbatim>\<open>matrix\<close> key, followed by setting the durations matrix of the default
  profile to \<open>get_matrix M\<close>. For a document with a top-level \<^verbatim>\<open>matrices\<close> key, the
  \<^verbatim>\<open>matrix\<close> key is ignored.
\<close>

theorem deprecated_matrix_key:
  "(map_of members ''matrices'' = None \<and> map_of members ''matrix'' = Some matrix
    \<longrightarrow> parse ext input (Inr (JObject members)) geometry
          = parse ext input (Inr (JObject (replace_matrix_key members))) geometry
        \<and> parse ext input (Inr (JObject members)) geometry
          = and_then (parse ext input (Inr (JObject (remove_member ''matrix'' members))) geometry)
              (\<lambda>input'. and_then (get_matrix matrix)
                 (\<lambda>mat. Inr (set_durations_matrix DEFAULT_PROFILE mat input'))))
   \<and> (map_of members ''matrices'' \<noteq> None
    \<longrightarrow> parse ext input (Inr (JObject members)) geometry
          = parse ext input (Inr (JObject (remove_member ''matrix'' members))) geometry)"
  using parse_replace_matrix_key [of members ext input geometry]
    parse_matrix_effect [of members matrix ext input geometry]
    parse_matrix_ignored [of members ext input geometry]
  by simp

theorem deprecated_matrix_key_witness:
  "map_of example_members ''matrices'' = None
   \<and> map_of example_members ''matrix''
       = Some (JArray [JArray [JUint 0, JUint 1], JArray [JUint 1, JUint 0]])
   \<and> parse example_externals empty_input (Inr (JObject (replace_matrix_key example_members)))
         False
       = Inr example_result
   \<and> and_then
         (parse example_externals empty_input
            (Inr (JObject (remove_member ''matrix'' example_members))) False)
         (\<lambda>input'. and_then
            (get_matrix (JArray [JArray [JUint 0, JUint 1], JArray [JUint 1, JUint 0]]))
            (\<lambda>mat. Inr (set_durations_matrix DEFAULT_PROFILE mat input')))
       = Inr example_result
   \<and> map_of matrix_and_matrices_members ''matrices'' \<noteq> None
   \<and> parse example_externals empty_input
         (Inr (JObject (remove_member ''matrix'' matrix_and_matrices_members))) False
       = Inr small_result"
proof -
  let ?M = "JArray [JArray [JUint 0, JUint 1], JArray [JUint 1, JUint 0]]"
  have k1: "map_of example_members ''matrices'' = None"
    and k2: "map_of example_members ''matrix'' = Some ?M"
    by (simp_all add: example_members_def)
  have k3: "map_of matrix_and_matrices_members ''matrices'' \<noteq> None"
    by (simp add: matrix_and_matrices_members_def)
  have p: "parse example_externals empty_input (Inr (JObject example_members)) False
           = Inr example_result"
    using parse_example_document by (simp only: example_document_def)
  from deprecated_matrix_key [where members = example_members and matrix = ?M
      and ext = example_externals and input = empty_input and geometry = False] k1 k2
  have "Inr example_result
        = parse example_externals empty_input
            (Inr (JObject (replace_matrix_key example_members))) False"
    and "Inr example_result
        = and_then
            (parse example_externals empty_input
               (Inr (JObject (remove_member ''matrix'' example_members))) False)
            (\<lambda>input'. and_then (get_matrix ?M)
               (\<lambda>mat. Inr (set_durations_matrix DEFAULT_PROFILE mat input')))"
    unfolding p by blast+
  moreover
  from deprecated_matrix_key [where members = matrix_and_matrices_members
      and ext = example_externals and input = empty_input and geometry = False] k3
  have "Inr small_result
        = parse example_externals empty_input
            (Inr (JObject (remove_member ''matrix'' matrix_and_matrices_members))) False"
    unfolding parse_matrix_and_matrices by blast
  ultimately show ?thesis
    using k1 k2 k3 by (simp only: simp_thms)
qed

section \<open>Vehicles with several time windows\<close>

text \<open>
  Claim C2. When \<open>parse\<close> succeeds, the vehicles it has added are, in order, the expansions
  of the vehicle objects of the document. A vehicle object with a \<^verbatim>\<open>time_windows\<close> key
  holding n windows is expanded to n vehicles, one per window (in sorted order), which
  agree on the id and on every other field; a vehicle object without that key is expanded
  to one vehicle, with the window read from \<^verbatim>\<open>time_window\<close>, or the default window.
\<close>

theorem parse_vehicle_clones:
  assumes "parse ext input (Inr json_input) geometry = Inr input'"
  shows "\<exists>vss. input_vehicles input' = input_vehicles input @ concat vss
           \<and> list_all2 (expands_to ext (input_amount_size input'))
               (array_elements (lookup json_input ''vehicles'')) vss"
  using assms by (rule parse_Inr_vehicles)

theorem parse_vehicle_clones_witness:
  "parse example_externals empty_input (Inr example_document) False = Inr example_result
   \<and> array_elements (lookup example_document ''vehicles'') = example_vehicles
   \<and> length (array_elements (lookup (example_vehicles ! 0) ''time_windows'')) = 2
   \<and> lookup (example_vehicles ! 1) ''time_windows'' = None
   \<and> lookup (example_vehicles ! 1) ''time_window'' = Some (JArray [JUint 5, JUint 9])
   \<and> input_vehicles example_result
       = input_vehicles empty_input
         @ concat [[example_vehicle_1 \<lparr>tw_start = 0, tw_end = 5000\<rparr>,
                    example_vehicle_1 \<lparr>tw_start = 10000, tw_end = 20000\<rparr>],
                   [example_vehicle_2]]
   \<and> get_time_windows example_externals (example_vehicles ! 0)
       = Inr [\<lparr>tw_start = 0, tw_end = 5000\<rparr>, \<lparr>tw_start = 10000, tw_end = 20000\<rparr>]
   \<and> (example_vehicle_1 \<lparr>tw_start = 0, tw_end = 5000\<rparr>)
         \<lparr>vehicle_tw := \<lparr>tw_start = 10000, tw_end = 20000\<rparr>\<rparr>
       = example_vehicle_1 \<lparr>tw_start = 10000, tw_end = 20000\<rparr>
   \<and> get_time_window (JArray [JUint 5, JUint 9]) = Inr (vehicle_tw example_vehicle_2)"
  using parse_vehicle_clones [OF parse_example_document] parse_example_document
  by (simp add: parser_defs lookup_def array_elements_def example_document_def
      example_members_def example_vehicles_def example_result_def example_vehicle_1_def
      example_vehicle_2_def)

section \<open>The amount size\<close>

text \<open>
  Claim C3 as stated fails: not every \<^verbatim>\<open>amount\<close> array of the input is checked. The job of
  the document below has an \<^verbatim>\<open>amount\<close> array with two entries, the amount size is 1 (the
  length of the capacity of the first vehicle), and \<open>parse\<close> succeeds: the job also has a
  \<^verbatim>\<open>delivery\<close> key, so its \<^verbatim>\<open>amount\<close> key is not read.
\<close>

theorem amount_dimension_counterexample:
  "array_elements (lookup (JObject ignored_amount_members) ''jobs'')
   = [ignored_amount_job_object]
   \<and> lookup ignored_amount_job_object ''amount'' = Some (JArray [JUint 9, JUint 9])
   \<and> length [JUint 9, JUint 9] = 2
   \<and> parse example_externals empty_input (Inr (JObject ignored_amount_members)) False
       = Inr ignored_amount_result
   \<and> input_amount_size ignored_amount_result = 1"
  by (simp add: parse_ignored_amount)
    (simp add: lookup_def array_elements_def ignored_amount_members_def
      ignored_amount_job_object_def ignored_amount_result_def)

text \<open>
  Claim C3, amended. For an array of another length than the amount size, \<open>get_amount\<close>
  throws an InputException whose message names the key and both lengths; for an absent
  key it returns the zero vector of the amount size. When \<open>parse\<close> succeeds, the amount
  size of the input is the length of the capacity array of the first vehicle (0 when it
  has no capacity array), and every amount array that is read has that length: the
  capacity of every vehicle, the maximal load of every break, delivery and pickup of every
  job, the amount of every shipment, and the amount of every job that has neither a
  delivery nor a pickup key.
\<close>

theorem amount_dimension:
  "(FindMember object key = Inr (Some (JArray xs)) \<and> length xs \<noteq> n
    \<longrightarrow> get_amount object key n
          = Inl (InputException
                   (''Inconsistent '' @ key @ '' length: '' @ to_string (length xs)
                    @ '' and '' @ to_string n @ ''.'')))
   \<and> (FindMember object key = Inr None \<longrightarrow> get_amount object key n = Inr (replicate n 0))
   \<and> (parse ext input (Inr json_input) geometry = Inr input'
    \<longrightarrow> input_amount_size input'
          = length (array_elements
                      (lookup (hd (array_elements (lookup json_input ''vehicles'')))
                         ''capacity''))
        \<and> amounts_fit (input_amount_size input') json_input)"
  using get_amount_mismatch [of object key xs n] get_amount_default [of object key n]
    parse_Inr_read [of ext input json_input geometry input']
  by blast

theorem amount_dimension_witness:
  "get_amount (JObject [(''capacity'', JArray [JUint 1, JUint 2])]) ''capacity'' 1
   = Inl (InputException ''Inconsistent capacity length: 2 and 1.'')
   \<and> get_amount (JObject [(''id'', JUint 7)]) ''pickup'' 3 = Inr [0, 0, 0]
   \<and> parse example_externals empty_input (Inr example_document) False = Inr example_result
   \<and> input_amount_size example_result = 1
   \<and> hd (array_elements (lookup example_document ''vehicles'')) = example_vehicles ! 0
   \<and> lookup (example_vehicles ! 0) ''capacity'' = Some (JArray [JUint 4])
   \<and> lookup (example_vehicles ! 1) ''capacity'' = Some (JArray [JUint 6])
   \<and> lookup example_shipment ''amount'' = Some (JArray [JUint 2])"
proof -
  have digits: "to_string 2 = ''2''" "to_string 1 = ''1''"
    by (simp_all add: to_string.simps)
  have three: "replicate 3 (0 :: 64 word) = [0, 0, 0]"
    by (simp add: numeral_3_eq_3)
  show ?thesis
    using amount_dimension [where object = "JObject [(''capacity'', JArray [JUint 1, JUint 2])]"
        and key = "''capacity''" and xs = "[JUint 1, JUint 2]" and n = 1
        and ext = example_externals and input = empty_input
        and json_input = example_document and geometry = False and input' = example_result]
      amount_dimension [where object = "JObject [(''id'', JUint 7)]"
        and key = "''pickup''" and n = 3]
      parse_example_document digits three
    by (simp add: lookup_def array_elements_def example_document_def example_members_def
        example_vehicles_def example_shipment_def example_result_def get_amount_def
        JUint_def to_string.simps)
qed

section \<open>Time windows whose start exceeds their end\<close>

text \<open>
  Claim C4 as stated fails: not every time window of the input is read. The vehicle of the
  document below has the time window from 5 to 1 under \<^verbatim>\<open>time_window\<close>, and \<open>parse\<close>
  succeeds: the vehicle also has a \<^verbatim>\<open>time_windows\<close> key, so its \<^verbatim>\<open>time_window\<close> key is not
  read.
\<close>

theorem malformed_time_window_counterexample:
  "array_elements (lookup (JObject ignored_window_members) ''vehicles'')
   = [ignored_window_vehicle_object]
   \<and> lookup ignored_window_vehicle_object ''time_window'' = Some (JArray [JUint 5, JUint 1])
   \<and> start_exceeds_end (JArray [JUint 5, JUint 1])
   \<and> parse example_externals empty_input (Inr (JObject ignored_window_members)) False
       = Inr ignored_window_result"
  by (simp add: parse_ignored_window)
    (simp add: lookup_def array_elements_def ignored_window_members_def
      ignored_window_vehicle_object_def start_exceeds_end_def JUint_def)

text \<open>
  Claim C4, amended. \<open>get_time_window\<close> throws an InputException for a time window whose
  start exceeds its end, and \<open>parse\<close> never succeeds on a document in which a time window
  that it reads is of this kind: one of the \<^verbatim>\<open>time_windows\<close> of a job, of the pickup or the
  delivery of a shipment, of a break of a vehicle or of a vehicle, or the \<^verbatim>\<open>time_window\<close> of
  a vehicle without a \<^verbatim>\<open>time_windows\<close> key.
\<close>

theorem malformed_time_window:
  "(start_exceeds_end tw \<longrightarrow> (\<exists>message. get_time_window tw = Inl (InputException message)))
   \<and> (parse ext input (Inr json_input) geometry = Inr input'
       \<longrightarrow> windows_well_formed json_input)"
  using get_time_window_malformed [of tw]
    parse_Inr_read [of ext input json_input geometry input']
  by blast

theorem malformed_time_window_witness:
  "start_exceeds_end (JArray [JUint 5, JUint 1])
   \<and> get_time_window (JArray [JUint 5, JUint 1]) = Inl (InputException ''Invalid time window.'')
   \<and> parse example_externals empty_input (Inr example_document) False = Inr example_result
   \<and> windows_of (example_vehicles ! 0)
       = [JArray [JUint 100, JUint 200], JArray [JUint 0, JUint 50]]
   \<and> start_exceeds_end (JArray [JUint 100, JUint 200]) = False
   \<and> start_exceeds_end (JArray [JUint 0, JUint 50]) = False
   \<and> lookup (example_vehicles ! 1) ''time_window'' = Some (JArray [JUint 5, JUint 9])
   \<and> start_exceeds_end (JArray [JUint 5, JUint 9]) = False"
proof -
  have "start_exceeds_end (JArray [JUint 5, JUint 1])"
    by (simp add: start_exceeds_end_def JUint_def)
  then show ?thesis
    using malformed_time_window [where tw = "JArray [JUint 5, JUint 1]"
        and ext = example_externals and input = empty_input
        and json_input = example_document and geometry = False and input' = example_result]
      parse_example_document
    by (simp add: start_exceeds_end_def JUint_def get_time_window_def TimeWindow_ctor_def
        windows_of_def lookup_def array_elements_def example_vehicles_def)
qed

end
